theory Spec2Isabelle
  imports Complex_Main
begin

section \<open>Data model (src/lib/types.ts)\<close>

text \<open>
  JavaScript numbers are modelled as exact reals. Optional fields (\<open>startPoint?\<close>,
  \<open>rotation?\<close>, ...) are options. The coordinates of a point are called \<open>px\<close> and
  \<open>py\<close> and the fields \<open>id\<close>, \<open>type\<close> and \<open>text\<close> of a stroke \<open>sid\<close>, \<open>stype\<close> and \<open>stext\<close>, the
  source's names being taken in HOL.
\<close>

datatype Tool = Pen | Eraser | Pan | Rectangle | Ellipse | Line | Text | Select

record Point =
  px :: real
  py :: real

record Bounds =
  minX :: real
  minY :: real
  maxX :: real
  maxY :: real

record Stroke =
  sid :: string
  stype :: Tool
  points :: "Point list"
  color :: string
  strokeWidth :: real
  startPoint :: "Point option"
  endPoint :: "Point option"
  stext :: "string option"
  fontSize :: "real option"
  mathMode :: "bool option"
  selected :: "bool option"
  rotation :: "real option"
  bounds :: "Bounds option"

record SelectionBox =
  startX :: real
  startY :: real
  endX :: real
  endY :: real

record CanvasState =
  czoom :: real
  cpanX :: real
  cpanY :: real

text \<open>The part of \<open>canvas.getBoundingClientRect()\<close> that the transformer reads.\<close>

record ClientRect =
  rleft :: real
  rtop :: real

section \<open>Coordinate transformer (CoordinateTransformer)\<close>

definition screenToCanvas :: "real \<Rightarrow> real \<Rightarrow> ClientRect \<Rightarrow> CanvasState \<Rightarrow> Point" where
  "screenToCanvas screenX screenY rect state =
     \<lparr>px = (screenX - rleft rect - cpanX state) / czoom state,
      py = (screenY - rtop rect - cpanY state) / czoom state\<rparr>"

definition canvasToScreen :: "real \<Rightarrow> real \<Rightarrow> ClientRect \<Rightarrow> CanvasState \<Rightarrow> Point" where
  "canvasToScreen canvasX canvasY rect state =
     \<lparr>px = canvasX * czoom state + cpanX state + rleft rect,
      py = canvasY * czoom state + cpanY state + rtop rect\<rparr>"

section \<open>Stroke utilities (StrokeUtils)\<close>

definition rotatePoint :: "real \<Rightarrow> real \<Rightarrow> real \<Rightarrow> real \<Rightarrow> real \<Rightarrow> Point" where
  "rotatePoint x y cx cy angle =
     (let c = cos angle; s = sin angle; dx = x - cx; dy = y - cy
      in \<lparr>px = cx + dx * c - dy * s, py = cy + dx * s + dy * c\<rparr>)"

text \<open>\<open>(stroke as any).rotation || 0\<close>: an absent rotation counts as 0.\<close>

definition rotationOf :: "Stroke \<Rightarrow> real" where
  "rotationOf s = (case rotation s of None \<Rightarrow> 0 | Some r \<Rightarrow> r)"

text \<open>\<open>stroke.fontSize || 16\<close>: an absent or zero font size counts as 16.\<close>

definition fontSizeOf :: "Stroke \<Rightarrow> real" where
  "fontSizeOf s = (case fontSize s of None \<Rightarrow> 16 | Some f \<Rightarrow> if f = 0 then 16 else f)"

definition textOf :: "Stroke \<Rightarrow> string" where
  "textOf s = (case stext s of None \<Rightarrow> [] | Some t \<Rightarrow> t)"

text \<open>\<open>text.split('\n')\<close>: the empty string gives one empty line.\<close>

fun splitLines :: "string \<Rightarrow> string list" where
  "splitLines [] = [[]]"
| "splitLines (c # cs) =
     (if c = CHR 0x0A then [] # splitLines cs
      else (case splitLines cs of [] \<Rightarrow> [[c]] | l # ls \<Rightarrow> (c # l) # ls))"

text \<open>
  The loops \<open>minX = Math.min(minX, p.x)\<close> start from \<open>Infinity\<close> (and \<open>-Infinity\<close>
  for the maxima) and run over a non-empty array, so the first element replaces the
  start value; on the empty list, which no caller passes, the functions return 0.
\<close>

fun minOf :: "real list \<Rightarrow> real" where
  "minOf [] = 0"
| "minOf (v # vs) = foldl min v vs"

fun maxOf :: "real list \<Rightarrow> real" where
  "maxOf [] = 0"
| "maxOf (v # vs) = foldl max v vs"

definition boundsOfPoints :: "Point list \<Rightarrow> Bounds" where
  "boundsOfPoints ps =
     \<lparr>minX = minOf (map px ps), minY = minOf (map py ps),
      maxX = maxOf (map px ps), maxY = maxOf (map py ps)\<rparr>"

text \<open>
  The four corners of a box, in the order of the source's \<open>corners\<close> array, each rotated
  about \<open>(cx, cy)\<close>.
\<close>

definition rotatedCorners :: "real \<Rightarrow> real \<Rightarrow> real \<Rightarrow> real \<Rightarrow> real \<Rightarrow> real \<Rightarrow> real \<Rightarrow> Point list" where
  "rotatedCorners x0 y0 x1 y1 cx cy angle =
     [rotatePoint x0 y0 cx cy angle, rotatePoint x1 y0 cx cy angle,
      rotatePoint x1 y1 cx cy angle, rotatePoint x0 y1 cx cy angle]"

text \<open>
  \<open>ctx.measureText(line).width\<close> under the font \<open>fontSize px "Kalam"\<close> is a capability of
  the browser: the measurer is a parameter, \<open>None\<close> when \<open>canvas.getContext('2d')\<close>
  returns null.
\<close>

type_synonym Measurer = "(real \<Rightarrow> string \<Rightarrow> real) option"

definition calculateBounds :: "Measurer \<Rightarrow> Stroke \<Rightarrow> Bounds" where
  "calculateBounds ctx stroke =
     (let rot = rotationOf stroke in
      if stype stroke = Text \<and> points stroke \<noteq> [] then
        (let point = hd (points stroke);
             fs = fontSizeOf stroke;
             txt = textOf stroke;
             lineHeight = fs * 1.2
         in case ctx of
              Some measureText \<Rightarrow>
                (let lines = splitLines txt;
                     widths = map (measureText fs) lines;
                     w = foldl max 20 widths;
                     h = max lineHeight (lineHeight * real (length lines));
                     pad = 2
                 in if rot \<noteq> 0 then
                      (let cx = px point + w / 2;
                           cy = py point + h / 2;
                           b = boundsOfPoints
                                 (rotatedCorners (px point) (py point) (px point + w) (py point + h)
                                    cx cy rot)
                       in \<lparr>minX = minX b - pad, minY = minY b - pad,
                           maxX = maxX b + pad, maxY = maxY b + pad\<rparr>)
                    else \<lparr>minX = px point - pad, minY = py point - pad,
                          maxX = px point + w + pad, maxY = py point + h + pad\<rparr>)
            | None \<Rightarrow>
                (let approxW = max 20 (real (length txt) * fs * 0.6);
                     approxH = lineHeight
                 in \<lparr>minX = px point, minY = py point,
                     maxX = px point + approxW, maxY = py point + approxH\<rparr>))
      else (case (startPoint stroke, endPoint stroke) of
         (Some sp, Some ep) \<Rightarrow>
           (let minX0 = min (px sp) (px ep);
                minY0 = min (py sp) (py ep);
                maxX0 = max (px sp) (px ep);
                maxY0 = max (py sp) (py ep)
            in if rot \<noteq> 0 then
                 (let cx = (minX0 + maxX0) / 2;
                      cy = (minY0 + maxY0) / 2
                  in boundsOfPoints (rotatedCorners minX0 minY0 maxX0 maxY0 cx cy rot))
               else \<lparr>minX = minX0, minY = minY0, maxX = maxX0, maxY = maxY0\<rparr>)
       | _ \<Rightarrow>
           if points stroke \<noteq> [] then
             (if rot \<noteq> 0 then
                (let u = boundsOfPoints (points stroke);
                     cx = (minX u + maxX u) / 2;
                     cy = (minY u + maxY u) / 2
                 in boundsOfPoints (map (\<lambda>p. rotatePoint (px p) (py p) cx cy rot) (points stroke)))
              else boundsOfPoints (points stroke))
           else \<lparr>minX = 0, minY = 0, maxX = 0, maxY = 0\<rparr>))"

text \<open>
  \<open>handle\<close> is a string in the source; a \<open>switch\<close> without a matching case changes
  nothing. The two switches of \<open>applyResize\<close> are written once here, since the store's
  \<open>updateResize\<close> repeats them case by case.
\<close>

definition resizeFontSize :: "string \<Rightarrow> real \<Rightarrow> real \<Rightarrow> real" where
  "resizeFontSize handle currentFontSize deltaY =
     (if handle = ''se'' \<or> handle = ''sw'' \<or> handle = ''s''
        then max 12 (currentFontSize + deltaY * 0.8)
      else if handle = ''ne'' \<or> handle = ''nw'' \<or> handle = ''n''
        then max 12 (currentFontSize - deltaY * 0.8)
      else currentFontSize)"

definition resizePoints :: "string \<Rightarrow> Point \<Rightarrow> Point \<Rightarrow> real \<Rightarrow> real \<Rightarrow> Point \<times> Point" where
  "resizePoints handle sp ep deltaX deltaY =
     (if handle = ''nw'' then (sp\<lparr>px := px sp + deltaX, py := py sp + deltaY\<rparr>, ep)
      else if handle = ''ne'' then (sp\<lparr>py := py sp + deltaY\<rparr>, ep\<lparr>px := px ep + deltaX\<rparr>)
      else if handle = ''sw'' then (sp\<lparr>px := px sp + deltaX\<rparr>, ep\<lparr>py := py ep + deltaY\<rparr>)
      else if handle = ''se'' then (sp, ep\<lparr>px := px ep + deltaX, py := py ep + deltaY\<rparr>)
      else if handle = ''n'' then (sp\<lparr>py := py sp + deltaY\<rparr>, ep)
      else if handle = ''s'' then (sp, ep\<lparr>py := py ep + deltaY\<rparr>)
      else if handle = ''w'' then (sp\<lparr>px := px sp + deltaX\<rparr>, ep)
      else if handle = ''e'' then (sp, ep\<lparr>px := px ep + deltaX\<rparr>)
      else (sp, ep))"

definition applyResize :: "Stroke \<Rightarrow> string \<Rightarrow> real \<Rightarrow> real \<Rightarrow> Stroke" where
  "applyResize stroke handle deltaX deltaY =
     (if stype stroke = Text then
        stroke\<lparr>fontSize := Some (resizeFontSize handle (fontSizeOf stroke) deltaY)\<rparr>
      else (case (startPoint stroke, endPoint stroke) of
         (Some sp, Some ep) \<Rightarrow>
           (let (newStartPoint, newEndPoint) = resizePoints handle sp ep deltaX deltaY
            in stroke\<lparr>startPoint := Some newStartPoint, endPoint := Some newEndPoint\<rparr>)
       | _ \<Rightarrow> stroke))"

definition createPenStroke :: "string \<Rightarrow> Point \<Rightarrow> string \<Rightarrow> real \<Rightarrow> Stroke" where
  "createPenStroke i point c w =
     \<lparr>sid = i, stype = Pen, points = [point], color = c, strokeWidth = w,
      startPoint = None, endPoint = None, stext = None, fontSize = None, mathMode = None,
      selected = None, rotation = None, bounds = None\<rparr>"

definition createShapeStroke :: "string \<Rightarrow> Tool \<Rightarrow> Point \<Rightarrow> Point \<Rightarrow> string \<Rightarrow> real \<Rightarrow> Stroke" where
  "createShapeStroke i t sp ep c w =
     \<lparr>sid = i, stype = t, points = [], color = c, strokeWidth = w,
      startPoint = Some sp, endPoint = Some ep, stext = None, fontSize = None, mathMode = None,
      selected = None, rotation = None, bounds = None\<rparr>"

text \<open>\<open>fontSize || Math.max(16, strokeWidth * 4)\<close>: an absent or zero size gives the default.\<close>

definition createTextStroke ::
  "string \<Rightarrow> Point \<Rightarrow> string \<Rightarrow> string \<Rightarrow> real \<Rightarrow> real option \<Rightarrow> Stroke" where
  "createTextStroke i point txt c w fs =
     \<lparr>sid = i, stype = Text, points = [point], color = c, strokeWidth = w,
      startPoint = None, endPoint = None, stext = Some txt,
      fontSize = Some (case fs of None \<Rightarrow> max 16 (w * 4)
                       | Some f \<Rightarrow> if f = 0 then max 16 (w * 4) else f),
      mathMode = None, selected = None, rotation = None, bounds = None\<rparr>"

definition updateStrokePoints :: "Stroke \<Rightarrow> Point list \<Rightarrow> Stroke" where
  "updateStrokePoints stroke newPoints = stroke\<lparr>points := newPoints\<rparr>"

definition applyRotation :: "Stroke \<Rightarrow> real \<Rightarrow> Stroke" where
  "applyRotation stroke rot = stroke\<lparr>rotation := Some (rotationOf stroke + rot)\<rparr>"

text \<open>
  The box that the specification describes for a rotated stroke: the axis-aligned box
  around the four corners of an unrotated box \<open>b\<close>, each rotated about the centre of \<open>b\<close>.
\<close>

definition minMaxBox :: "Point \<Rightarrow> Point \<Rightarrow> Bounds" where
  "minMaxBox sp ep =
     \<lparr>minX = min (px sp) (px ep), minY = min (py sp) (py ep),
      maxX = max (px sp) (px ep), maxY = max (py sp) (py ep)\<rparr>"

definition boxOfRotatedCorners :: "Bounds \<Rightarrow> real \<Rightarrow> Bounds" where
  "boxOfRotatedCorners b angle =
     boundsOfPoints (rotatedCorners (minX b) (minY b) (maxX b) (maxY b)
        ((minX b + maxX b) / 2) ((minY b + maxY b) / 2) angle)"

definition padBox :: "real \<Rightarrow> Bounds \<Rightarrow> Bounds" where
  "padBox pad b =
     \<lparr>minX = minX b - pad, minY = minY b - pad, maxX = maxX b + pad, maxY = maxY b + pad\<rparr>"

text \<open>
  The marquee as the specification reads it: the normalized box spanned by its two
  corners, a point inside a box, and two boxes that overlap.
\<close>

definition normalizedBox :: "SelectionBox \<Rightarrow> Bounds" where
  "normalizedBox box =
     \<lparr>minX = min (startX box) (endX box), minY = min (startY box) (endY box),
      maxX = max (startX box) (endX box), maxY = max (startY box) (endY box)\<rparr>"

definition pointInBox :: "Point \<Rightarrow> Bounds \<Rightarrow> bool" where
  "pointInBox p b = (minX b \<le> px p \<and> px p \<le> maxX b \<and> minY b \<le> py p \<and> py p \<le> maxY b)"

definition boxesOverlap :: "Bounds \<Rightarrow> Bounds \<Rightarrow> bool" where
  "boxesOverlap a b = (minX a \<le> maxX b \<and> maxX a \<ge> minX b \<and> minY a \<le> maxY b \<and> maxY a \<ge> minY b)"

text \<open>
  The unrotated, unpadded box of a text stroke under a measurer: from the anchor, as wide as
  the widest line (at least 20) and as high as the lines.
\<close>

definition measuredTextBox :: "(real \<Rightarrow> string \<Rightarrow> real) \<Rightarrow> Stroke \<Rightarrow> Bounds" where
  "measuredTextBox measureText stroke =
     (let point = hd (points stroke);
          fs = fontSizeOf stroke;
          lines = splitLines (textOf stroke);
          w = foldl max 20 (map (measureText fs) lines);
          lineHeight = fs * 1.2;
          h = max lineHeight (lineHeight * real (length lines))
      in \<lparr>minX = px point, minY = py point, maxX = px point + w, maxY = py point + h\<rparr>)"

text \<open>The points of a path, each rotated about the centre of the box around the path.\<close>

definition rotatedPath :: "Point list \<Rightarrow> real \<Rightarrow> Point list" where
  "rotatedPath ps angle =
     (let u = boundsOfPoints ps
      in map (\<lambda>p. rotatePoint (px p) (py p) ((minX u + maxX u) / 2) ((minY u + maxY u) / 2) angle) ps)"

definition boxWithin :: "Bounds \<Rightarrow> Bounds \<Rightarrow> bool" where
  "boxWithin a b = (minX b \<le> minX a \<and> maxX a \<le> maxX b \<and> minY b \<le> minY a \<and> maxY a \<le> maxY b)"

section \<open>Hit detector (HitDetector)\<close>

text \<open>
  The body of the loop of \<open>getStrokeAtPoint\<close>: whether the stroke is returned when the
  scan reaches it. \<open>calcBounds\<close> is the function the caller passes in.
\<close>

definition hitsStroke :: "(Stroke \<Rightarrow> Bounds) \<Rightarrow> Point \<Rightarrow> Stroke \<Rightarrow> bool" where
  "hitsStroke calcBounds point stroke =
     (if stype stroke = Text \<and> points stroke \<noteq> [] then
        (let b = calcBounds stroke
         in px point \<ge> minX b \<and> px point \<le> maxX b \<and> py point \<ge> minY b \<and> py point \<le> maxY b)
      else (case (startPoint stroke, endPoint stroke) of
         (Some sp, Some ep) \<Rightarrow>
           (let minX = min (px sp) (px ep) - 12;
                maxX = max (px sp) (px ep) + 12;
                minY = min (py sp) (py ep) - 12;
                maxY = max (py sp) (py ep) + 12
            in px point \<ge> minX \<and> px point \<le> maxX \<and> py point \<ge> minY \<and> py point \<le> maxY)
       | _ \<Rightarrow>
           points stroke \<noteq> [] \<and>
           list_ex (\<lambda>p. sqrt ((px p - px point)\<^sup>2 + (py p - py point)\<^sup>2)
                          \<le> max 14 (strokeWidth stroke + 10))
             (points stroke)))"

text \<open>
  \<open>for (let i = strokes.length - 1; i >= 0; i--)\<close>: \<open>scanFrom ... n\<close> is the loop with
  \<open>n\<close> indices left, the next one read being \<open>n - 1\<close>.
\<close>

fun scanFrom :: "(Stroke \<Rightarrow> Bounds) \<Rightarrow> Point \<Rightarrow> Stroke list \<Rightarrow> nat \<Rightarrow> Stroke option" where
  "scanFrom calcBounds point strokes 0 = None"
| "scanFrom calcBounds point strokes (Suc i) =
     (if hitsStroke calcBounds point (strokes ! i) then Some (strokes ! i)
      else scanFrom calcBounds point strokes i)"

definition getStrokeAtPoint :: "Point \<Rightarrow> Stroke list \<Rightarrow> (Stroke \<Rightarrow> Bounds) \<Rightarrow> Stroke option" where
  "getStrokeAtPoint point strokes calcBounds = scanFrom calcBounds point strokes (length strokes)"

definition isPointInSelectionBox :: "Point \<Rightarrow> SelectionBox \<Rightarrow> bool" where
  "isPointInSelectionBox point selectionBox =
     (let minX = min (startX selectionBox) (endX selectionBox);
          maxX = max (startX selectionBox) (endX selectionBox);
          minY = min (startY selectionBox) (endY selectionBox);
          maxY = max (startY selectionBox) (endY selectionBox)
      in px point \<ge> minX \<and> px point \<le> maxX \<and> py point \<ge> minY \<and> py point \<le> maxY)"

text \<open>The predicate that \<open>getStrokesInSelectionBox\<close> filters with.\<close>

definition strokeInSelectionBox :: "SelectionBox \<Rightarrow> Stroke \<Rightarrow> bool" where
  "strokeInSelectionBox selectionBox stroke =
     (let minX = min (startX selectionBox) (endX selectionBox);
          maxX = max (startX selectionBox) (endX selectionBox);
          minY = min (startY selectionBox) (endY selectionBox);
          maxY = max (startY selectionBox) (endY selectionBox)
      in if stype stroke = Text \<and> points stroke \<noteq> [] then
           (let point = hd (points stroke)
            in px point \<ge> minX \<and> px point \<le> maxX \<and> py point \<ge> minY \<and> py point \<le> maxY)
         else (case (startPoint stroke, endPoint stroke) of
            (Some sp, Some ep) \<Rightarrow>
              (let strokeMinX = min (px sp) (px ep);
                   strokeMaxX = max (px sp) (px ep);
                   strokeMinY = min (py sp) (py ep);
                   strokeMaxY = max (py sp) (py ep)
               in strokeMinX \<le> maxX \<and> strokeMaxX \<ge> minX \<and> strokeMinY \<le> maxY \<and> strokeMaxY \<ge> minY)
          | _ \<Rightarrow>
              points stroke \<noteq> [] \<and>
              list_ex (\<lambda>point. px point \<ge> minX \<and> px point \<le> maxX \<and> py point \<ge> minY \<and> py point \<le> maxY)
                (points stroke)))"

definition getStrokesInSelectionBox :: "Stroke list \<Rightarrow> SelectionBox \<Rightarrow> string list" where
  "getStrokesInSelectionBox strokes selectionBox =
     map sid (filter (strokeInSelectionBox selectionBox) strokes)"

section \<open>The store (src/hooks/use-whiteboard-store.ts and its slices)\<close>

record EditingText =
  eid :: string
  ex :: real
  ey :: real
  etext :: string
  emathMode :: bool

record WhiteboardDocument =
  docId :: string
  docName :: string
  docStrokes :: "Stroke list"
  createdAt :: nat
  updatedAt :: nat
  thumbnail :: "string option"

text \<open>
  The state of the store. \<open>historyIndex\<close> is a natural number: it starts at 0 and is only
  ever assigned \<open>newHistory.length - 1\<close> after a push, \<open>historyIndex - 1\<close> under the guard
  \<open>historyIndex > 0\<close>, \<open>historyIndex + 1\<close>, or 0.
\<close>

record WhiteboardState =
  currentTool :: Tool
  currentColor :: string
  currentStrokeWidth :: real
  zoom :: real
  panX :: real
  panY :: real
  strokes :: "Stroke list"
  currentStroke :: "Stroke option"
  isDrawingShape :: bool
  shapeStartPoint :: "Point option"
  selectedStrokes :: "string list"
  selectionBox :: "SelectionBox option"
  isSelecting :: bool
  isDragging :: bool
  dragStart :: "Point option"
  resizeHandle :: "string option"
  isRotating :: bool
  rotateStart :: "Point option"
  editingText :: "EditingText option"
  history :: "Stroke list list"
  historyIndex :: nat
  currentDocument :: "WhiteboardDocument option"
  savedDocuments :: "WhiteboardDocument list"
  isModified :: bool

definition initialState :: WhiteboardState where
  "initialState =
     \<lparr>currentTool = Pen, currentColor = ''#2563eb'', currentStrokeWidth = 4,
      zoom = 1, panX = 0, panY = 0,
      strokes = [], currentStroke = None, isDrawingShape = False, shapeStartPoint = None,
      selectedStrokes = [], selectionBox = None, isSelecting = False, isDragging = False,
      dragStart = None, resizeHandle = None, isRotating = False, rotateStart = None,
      editingText = None, history = [[]], historyIndex = 0,
      currentDocument = None, savedDocuments = [], isModified = False\<rparr>"

definition canUndo :: "WhiteboardState \<Rightarrow> bool" where
  "canUndo s = (historyIndex s > 0)"

text \<open>\<open>history.length - 1\<close> is -1 on an empty array, below every index.\<close>

definition canRedo :: "WhiteboardState \<Rightarrow> bool" where
  "canRedo s = (int (historyIndex s) < int (length (history s)) - 1)"

text \<open>
  The three statements that every committing action repeats:
  \<open>newHistory = history.slice(0, historyIndex + 1); newHistory.push(snapshot);\<close>
  \<open>set({history: newHistory, historyIndex: newHistory.length - 1})\<close>.
\<close>

definition pushHistory :: "Stroke list \<Rightarrow> WhiteboardState \<Rightarrow> WhiteboardState" where
  "pushHistory snapshot s =
     (let newHistory = take (historyIndex s + 1) (history s) @ [snapshot]
      in s\<lparr>history := newHistory, historyIndex := length newHistory - 1\<rparr>)"

subsection \<open>History slice\<close>

text \<open>
  \<open>state.history[newIndex]\<close> is read inside the array in every reachable state
  (\<open>historyIndex < history.length\<close> there, see the invariant below).
\<close>

definition undo :: "WhiteboardState \<Rightarrow> WhiteboardState" where
  "undo s =
     (if historyIndex s > 0 then
        (let newIndex = historyIndex s - 1
         in s\<lparr>strokes := history s ! newIndex, historyIndex := newIndex, isModified := True\<rparr>)
      else s)"

definition redo :: "WhiteboardState \<Rightarrow> WhiteboardState" where
  "redo s =
     (if int (historyIndex s) < int (length (history s)) - 1 then
        (let newIndex = historyIndex s + 1
         in s\<lparr>strokes := history s ! newIndex, historyIndex := newIndex, isModified := True\<rparr>)
      else s)"

subsection \<open>Drawing actions\<close>

definition addStroke :: "Stroke \<Rightarrow> WhiteboardState \<Rightarrow> WhiteboardState" where
  "addStroke stroke s =
     (let newStrokes = strokes s @ [stroke]
      in pushHistory newStrokes (s\<lparr>strokes := newStrokes, isModified := True\<rparr>))"

definition setCurrentStroke :: "Stroke option \<Rightarrow> WhiteboardState \<Rightarrow> WhiteboardState" where
  "setCurrentStroke stroke s = s\<lparr>currentStroke := stroke\<rparr>"

definition finishStroke :: "WhiteboardState \<Rightarrow> WhiteboardState" where
  "finishStroke s =
     (case currentStroke s of
        Some cs \<Rightarrow> (addStroke cs s)\<lparr>currentStroke := None, currentTool := Select\<rparr>
      | None \<Rightarrow> s)"

text \<open>\<open>Date.now().toString()\<close> is an input of the action (\<open>nowId\<close>).\<close>

definition startShape :: "string \<Rightarrow> Point \<Rightarrow> WhiteboardState \<Rightarrow> WhiteboardState" where
  "startShape nowId point s =
     s\<lparr>isDrawingShape := True, shapeStartPoint := Some point,
       currentStroke := Some
         \<lparr>sid = nowId, stype = currentTool s, points = [], color = currentColor s,
          strokeWidth = currentStrokeWidth s, startPoint = Some point, endPoint = Some point,
          stext = None, fontSize = None, mathMode = None, selected = None, rotation = None,
          bounds = None\<rparr>\<rparr>"

definition updateShape :: "Point \<Rightarrow> WhiteboardState \<Rightarrow> WhiteboardState" where
  "updateShape point s =
     (case currentStroke s of
        Some cs \<Rightarrow>
          if isDrawingShape s then s\<lparr>currentStroke := Some (cs\<lparr>endPoint := Some point\<rparr>)\<rparr> else s
      | None \<Rightarrow> s)"

definition finishShape :: "WhiteboardState \<Rightarrow> WhiteboardState" where
  "finishShape s =
     (case currentStroke s of
        Some cs \<Rightarrow>
          if isDrawingShape s then
            (addStroke cs s)\<lparr>currentStroke := None, isDrawingShape := False,
                             shapeStartPoint := None, currentTool := Select\<rparr>
          else s
      | None \<Rightarrow> s)"

subsection \<open>Erasing\<close>

datatype Error = TypeError

text \<open>
  The callback of \<open>strokes.filter\<close> in \<open>eraseAtPoint\<close>: whether the stroke is kept. On a
  text stroke without points \<open>stroke.points[0]\<close> is \<open>undefined\<close> and reading its \<open>x\<close>
  throws a TypeError.
\<close>

definition keepOnErase :: "real \<Rightarrow> real \<Rightarrow> real \<Rightarrow> Stroke \<Rightarrow> Error + bool" where
  "keepOnErase x y radius stroke =
     (if stype stroke = Text then
        (case points stroke of
           [] \<Rightarrow> Inl TypeError
         | textPoint # _ \<Rightarrow>
             Inr (sqrt ((px textPoint - x)\<^sup>2 + (py textPoint - y)\<^sup>2) > radius))
      else if stype stroke = Rectangle \<or> stype stroke = Ellipse \<or> stype stroke = Line then
        (case (startPoint stroke, endPoint stroke) of
           (Some sp, Some ep) \<Rightarrow>
             (let minX = min (px sp) (px ep);
                  maxX = max (px sp) (px ep);
                  minY = min (py sp) (py ep);
                  maxY = max (py sp) (py ep)
              in Inr (\<not> (x \<ge> minX - radius \<and> x \<le> maxX + radius \<and>
                          y \<ge> minY - radius \<and> y \<le> maxY + radius)))
         | _ \<Rightarrow> Inr True)
      else
        Inr (\<not> list_ex (\<lambda>point. sqrt ((px point - x)\<^sup>2 + (py point - y)\<^sup>2) \<le> radius)
                   (points stroke)))"

text \<open>\<open>Array.prototype.filter\<close> with a callback that may throw, left to right.\<close>

fun filterErase :: "real \<Rightarrow> real \<Rightarrow> real \<Rightarrow> Stroke list \<Rightarrow> Error + Stroke list" where
  "filterErase x y radius [] = Inr []"
| "filterErase x y radius (stroke # rest) =
     (case keepOnErase x y radius stroke of
        Inl e \<Rightarrow> Inl e
      | Inr keep \<Rightarrow>
          (case filterErase x y radius rest of
             Inl e \<Rightarrow> Inl e
           | Inr kept \<Rightarrow> Inr (if keep then stroke # kept else kept)))"

definition eraseAtPoint :: "real \<Rightarrow> real \<Rightarrow> real \<Rightarrow> WhiteboardState \<Rightarrow> Error + WhiteboardState" where
  "eraseAtPoint x y radius s =
     (case filterErase x y radius (strokes s) of
        Inl e \<Rightarrow> Inl e
      | Inr newStrokes \<Rightarrow>
          if length newStrokes \<noteq> length (strokes s) then
            Inr (pushHistory newStrokes (s\<lparr>strokes := newStrokes, isModified := True\<rparr>))
          else Inr s)"

subsection \<open>Selection actions\<close>

definition selectStroke :: "string \<Rightarrow> bool \<Rightarrow> WhiteboardState \<Rightarrow> WhiteboardState" where
  "selectStroke i addToSelection s =
     (let newSelected = (if addToSelection then selectedStrokes s @ [i] else [i]);
          newStrokes = map (\<lambda>stroke. stroke\<lparr>selected := Some (sid stroke \<in> set newSelected)\<rparr>)
                         (strokes s)
      in s\<lparr>selectedStrokes := newSelected, strokes := newStrokes\<rparr>)"

definition selectMultiple :: "string list \<Rightarrow> WhiteboardState \<Rightarrow> WhiteboardState" where
  "selectMultiple ids s =
     (let newStrokes = map (\<lambda>stroke. stroke\<lparr>selected := Some (sid stroke \<in> set ids)\<rparr>) (strokes s)
      in s\<lparr>selectedStrokes := ids, strokes := newStrokes\<rparr>)"

definition clearSelection :: "WhiteboardState \<Rightarrow> WhiteboardState" where
  "clearSelection s =
     (let newStrokes = map (\<lambda>stroke. stroke\<lparr>selected := Some False\<rparr>) (strokes s)
      in s\<lparr>selectedStrokes := [], strokes := newStrokes\<rparr>)"

definition deleteSelected :: "WhiteboardState \<Rightarrow> WhiteboardState" where
  "deleteSelected s =
     (let newStrokes = filter (\<lambda>stroke. sid stroke \<notin> set (selectedStrokes s)) (strokes s)
      in pushHistory newStrokes
           (s\<lparr>strokes := newStrokes, selectedStrokes := [], isModified := True\<rparr>))"

definition startSelection :: "Point \<Rightarrow> WhiteboardState \<Rightarrow> WhiteboardState" where
  "startSelection point s =
     s\<lparr>isSelecting := True,
       selectionBox := Some \<lparr>startX = px point, startY = py point, endX = px point, endY = py point\<rparr>\<rparr>"

definition updateSelection :: "Point \<Rightarrow> WhiteboardState \<Rightarrow> WhiteboardState" where
  "updateSelection point s =
     (case selectionBox s of
        Some box \<Rightarrow> s\<lparr>selectionBox := Some (box\<lparr>endX := px point, endY := py point\<rparr>)\<rparr>
      | None \<Rightarrow> s)"

text \<open>
  The predicate that the store's \<open>finishSelection\<close> filters with. It differs from
  \<open>getStrokesInSelectionBox\<close> in the text branch ("Use calculated bounds for accurate
  selection overlap").
\<close>

definition strokeInMarquee :: "Measurer \<Rightarrow> SelectionBox \<Rightarrow> Stroke \<Rightarrow> bool" where
  "strokeInMarquee ctx box stroke =
     (let minX' = min (startX box) (endX box);
          maxX' = max (startX box) (endX box);
          minY' = min (startY box) (endY box);
          maxY' = max (startY box) (endY box)
      in if stype stroke = Text \<and> points stroke \<noteq> [] then
           (let b = calculateBounds ctx stroke
            in minX b \<le> maxX' \<and> maxX b \<ge> minX' \<and> minY b \<le> maxY' \<and> maxY b \<ge> minY')
         else (case (startPoint stroke, endPoint stroke) of
            (Some sp, Some ep) \<Rightarrow>
              (let strokeMinX = min (px sp) (px ep);
                   strokeMaxX = max (px sp) (px ep);
                   strokeMinY = min (py sp) (py ep);
                   strokeMaxY = max (py sp) (py ep)
               in strokeMinX \<le> maxX' \<and> strokeMaxX \<ge> minX' \<and> strokeMinY \<le> maxY' \<and> strokeMaxY \<ge> minY')
          | _ \<Rightarrow>
              points stroke \<noteq> [] \<and>
              list_ex (\<lambda>point. px point \<ge> minX' \<and> px point \<le> maxX' \<and>
                               py point \<ge> minY' \<and> py point \<le> maxY')
                (points stroke)))"

definition finishSelection :: "Measurer \<Rightarrow> WhiteboardState \<Rightarrow> WhiteboardState" where
  "finishSelection ctx s =
     (let s1 = (case selectionBox s of
                  Some box \<Rightarrow>
                    selectMultiple (map sid (filter (strokeInMarquee ctx box) (strokes s))) s
                | None \<Rightarrow> s)
      in s1\<lparr>isSelecting := False, selectionBox := None\<rparr>)"

definition startDrag :: "Point \<Rightarrow> WhiteboardState \<Rightarrow> WhiteboardState" where
  "startDrag point s = s\<lparr>isDragging := True, dragStart := Some point\<rparr>"

text \<open>The callback of \<open>strokes.map\<close> in \<open>updateDrag\<close>.\<close>

definition dragStroke :: "string list \<Rightarrow> real \<Rightarrow> real \<Rightarrow> Stroke \<Rightarrow> Stroke" where
  "dragStroke sel deltaX deltaY stroke =
     (if sid stroke \<in> set sel then
        (if stype stroke = Text \<and> points stroke \<noteq> [] then
           stroke\<lparr>points := [\<lparr>px = px (hd (points stroke)) + deltaX,
                              py = py (hd (points stroke)) + deltaY\<rparr>]\<rparr>
         else (case (startPoint stroke, endPoint stroke) of
            (Some sp, Some ep) \<Rightarrow>
              stroke\<lparr>startPoint := Some \<lparr>px = px sp + deltaX, py = py sp + deltaY\<rparr>,
                     endPoint := Some \<lparr>px = px ep + deltaX, py = py ep + deltaY\<rparr>\<rparr>
          | _ \<Rightarrow>
              if points stroke \<noteq> [] then
                stroke\<lparr>points := map (\<lambda>p. \<lparr>px = px p + deltaX, py = py p + deltaY\<rparr>) (points stroke)\<rparr>
              else stroke))
      else stroke)"

definition updateDrag :: "Point \<Rightarrow> WhiteboardState \<Rightarrow> WhiteboardState" where
  "updateDrag point s =
     (case dragStart s of
        Some ds \<Rightarrow>
          if isDragging s then
            (let deltaX = px point - px ds;
                 deltaY = py point - py ds;
                 newStrokes = map (dragStroke (selectedStrokes s) deltaX deltaY) (strokes s)
             in s\<lparr>strokes := newStrokes, dragStart := Some point\<rparr>)
          else s
      | None \<Rightarrow> s)"

definition finishDrag :: "WhiteboardState \<Rightarrow> WhiteboardState" where
  "finishDrag s =
     (if isDragging s then
        pushHistory (strokes s) (s\<lparr>isDragging := False, dragStart := None, isModified := True\<rparr>)
      else s)"

definition startResize :: "string \<Rightarrow> Point \<Rightarrow> WhiteboardState \<Rightarrow> WhiteboardState" where
  "startResize handle point s = s\<lparr>resizeHandle := Some handle, dragStart := Some point\<rparr>"

text \<open>A string is truthy when it is not empty.\<close>

definition handleActive :: "WhiteboardState \<Rightarrow> bool" where
  "handleActive s = (case resizeHandle s of Some h \<Rightarrow> h \<noteq> [] | None \<Rightarrow> False)"

definition updateResize :: "Point \<Rightarrow> WhiteboardState \<Rightarrow> WhiteboardState" where
  "updateResize point s =
     (case (resizeHandle s, dragStart s) of
        (Some handle, Some ds) \<Rightarrow>
          if handle \<noteq> [] \<and> length (selectedStrokes s) = 1 then
            (let strokeId = hd (selectedStrokes s)
             in case find (\<lambda>st. sid st = strokeId) (strokes s) of
                  None \<Rightarrow> s
                | Some stroke \<Rightarrow>
                    (let deltaX = px point - px ds;
                         deltaY = py point - py ds;
                         newStrokes =
                           (if stype stroke = Text then
                              (let newFontSize = resizeFontSize handle (fontSizeOf stroke) deltaY
                               in map (\<lambda>st. if sid st = strokeId
                                             then st\<lparr>fontSize := Some newFontSize\<rparr> else st)
                                    (strokes s))
                            else (case (startPoint stroke, endPoint stroke) of
                               (Some sp, Some ep) \<Rightarrow>
                                 (let (newStartPoint, newEndPoint) =
                                        resizePoints handle sp ep deltaX deltaY
                                  in map (\<lambda>st. if sid st = strokeId
                                                then st\<lparr>startPoint := Some newStartPoint,
                                                        endPoint := Some newEndPoint\<rparr>
                                                else st)
                                       (strokes s))
                             | _ \<Rightarrow> strokes s))
                     in s\<lparr>strokes := newStrokes, dragStart := Some point\<rparr>))
          else s
      | _ \<Rightarrow> s)"

definition finishResize :: "WhiteboardState \<Rightarrow> WhiteboardState" where
  "finishResize s =
     (if handleActive s then
        pushHistory (strokes s) (s\<lparr>resizeHandle := None, dragStart := None, isModified := True\<rparr>)
      else s)"

definition startRotate :: "Point \<Rightarrow> WhiteboardState \<Rightarrow> WhiteboardState" where
  "startRotate point s = s\<lparr>isRotating := True, rotateStart := Some point\<rparr>"

text \<open>\<open>Math.atan2(y, x)\<close> over the reals.\<close>

definition atan2 :: "real \<Rightarrow> real \<Rightarrow> real" where
  "atan2 y x =
     (if x > 0 then arctan (y / x)
      else if x < 0 then (if y \<ge> 0 then arctan (y / x) + pi else arctan (y / x) - pi)
      else if y > 0 then pi / 2
      else if y < 0 then - (pi / 2)
      else 0)"

definition updateRotate :: "Measurer \<Rightarrow> Point \<Rightarrow> WhiteboardState \<Rightarrow> WhiteboardState" where
  "updateRotate ctx point s =
     (case rotateStart s of
        Some rs \<Rightarrow>
          if isRotating s \<and> length (selectedStrokes s) = 1 then
            (let strokeId = hd (selectedStrokes s)
             in case find (\<lambda>st. sid st = strokeId) (strokes s) of
                  None \<Rightarrow> s
                | Some stroke \<Rightarrow>
                    (let b = calculateBounds ctx stroke;
                         centerX = (minX b + maxX b) / 2;
                         centerY = (minY b + maxY b) / 2;
                         startAngle = atan2 (py rs - centerY) (px rs - centerX);
                         currentAngle = atan2 (py point - centerY) (px point - centerX);
                         rot = currentAngle - startAngle;
                         newStrokes = map (\<lambda>st. if sid st = strokeId
                                                 then st\<lparr>rotation := Some (rotationOf st + rot)\<rparr>
                                                 else st)
                                        (strokes s)
                     in s\<lparr>strokes := newStrokes, rotateStart := Some point\<rparr>))
          else s
      | None \<Rightarrow> s)"

definition finishRotate :: "WhiteboardState \<Rightarrow> WhiteboardState" where
  "finishRotate s =
     (if isRotating s then
        pushHistory (strokes s) (s\<lparr>isRotating := False, rotateStart := None, isModified := True\<rparr>)
      else s)"

subsection \<open>Text actions\<close>

definition startTextEdit :: "string \<Rightarrow> Point \<Rightarrow> WhiteboardState \<Rightarrow> WhiteboardState" where
  "startTextEdit nowId point s =
     s\<lparr>editingText := Some \<lparr>eid = nowId, ex = px point, ey = py point, etext = [],
                              emathMode = False\<rparr>\<rparr>"

text \<open>The text stroke that \<open>updateText\<close> and \<open>finishTextEdit\<close> build for a new text.\<close>

definition newTextStroke :: "EditingText \<Rightarrow> string \<Rightarrow> WhiteboardState \<Rightarrow> Stroke" where
  "newTextStroke et txt s =
     \<lparr>sid = eid et, stype = Text, points = [\<lparr>px = ex et, py = ey et\<rparr>],
      color = currentColor s, strokeWidth = currentStrokeWidth s,
      startPoint = None, endPoint = None, stext = Some txt,
      fontSize = Some (max 16 (currentStrokeWidth s * 4)), mathMode = Some (emathMode et),
      selected = None, rotation = None, bounds = None\<rparr>"

definition updateText :: "string \<Rightarrow> WhiteboardState \<Rightarrow> WhiteboardState" where
  "updateText txt s =
     (case editingText s of
        None \<Rightarrow> s
      | Some et \<Rightarrow>
          (let s1 = s\<lparr>editingText := Some (et\<lparr>etext := txt\<rparr>)\<rparr>
           in case find (\<lambda>st. sid st = eid et) (strokes s) of
                Some existing \<Rightarrow>
                  if stype existing = Text then
                    s1\<lparr>strokes := map (\<lambda>st. if sid st = sid existing
                                             then st\<lparr>stext := Some txt\<rparr> else st) (strokes s),
                        isModified := True\<rparr>
                  else if txt \<noteq> [] then
                    s1\<lparr>strokes := strokes s @ [newTextStroke et txt s], isModified := True\<rparr>
                  else s1
              | None \<Rightarrow>
                  if txt \<noteq> [] then
                    s1\<lparr>strokes := strokes s @ [newTextStroke et txt s], isModified := True\<rparr>
                  else s1))"

text \<open>
  \<open>String.prototype.trim\<close> on the ASCII white space and line terminators (a string is a
  list of bytes here).
\<close>

definition isJsSpace :: "char \<Rightarrow> bool" where
  "isJsSpace c = (c \<in> {CHR 0x09, CHR 0x0A, CHR 0x0B, CHR 0x0C, CHR 0x0D, CHR 0x20})"

definition trim :: "string \<Rightarrow> string" where
  "trim t = rev (dropWhile isJsSpace (rev (dropWhile isJsSpace t)))"

definition finishTextEdit :: "WhiteboardState \<Rightarrow> WhiteboardState" where
  "finishTextEdit s =
     (let s1 =
        (case editingText s of
           None \<Rightarrow> s
         | Some et \<Rightarrow>
             if trim (etext et) \<noteq> [] then
               (let existingStroke = find (\<lambda>st. sid st = eid et) (strokes s)
                in if (case existingStroke of Some e \<Rightarrow> stype e = Text | None \<Rightarrow> False) then
                     (let e = the existingStroke;
                          preservedFontSize =
                            (case fontSize e of Some f \<Rightarrow> f
                             | None \<Rightarrow> max 16 (currentStrokeWidth s * 4));
                          preservedColor = color e;
                          newStrokes =
                            map (\<lambda>stroke. if sid stroke = eid et
                                   then stroke\<lparr>stext := Some (etext et),
                                               fontSize := Some preservedFontSize,
                                               color := preservedColor,
                                               mathMode := Some (emathMode et)\<rparr>
                                   else stroke)
                              (strokes s)
                      in pushHistory newStrokes
                           (s\<lparr>strokes := newStrokes, isModified := True, currentTool := Select\<rparr>))
                   else (addStroke (newTextStroke et (etext et) s) s)\<lparr>currentTool := Select\<rparr>)
             else s)
      in s1\<lparr>editingText := None\<rparr>)"

definition setEditingText :: "EditingText option \<Rightarrow> WhiteboardState \<Rightarrow> WhiteboardState" where
  "setEditingText editing s = s\<lparr>editingText := editing\<rparr>"

subsection \<open>Tool, colour and view actions\<close>

definition setCurrentTool :: "Tool \<Rightarrow> WhiteboardState \<Rightarrow> WhiteboardState" where
  "setCurrentTool tool s =
     (let s1 = s\<lparr>currentTool := tool\<rparr>
      in if tool \<noteq> Select then clearSelection s1 else s1)"

definition setCurrentColor :: "string \<Rightarrow> WhiteboardState \<Rightarrow> WhiteboardState" where
  "setCurrentColor c s =
     (if currentTool s = Select \<and> length (selectedStrokes s) > 0 then
        (let newStrokes = map (\<lambda>st. if sid st \<in> set (selectedStrokes s) then st\<lparr>color := c\<rparr> else st)
                            (strokes s)
         in pushHistory newStrokes
              (s\<lparr>currentColor := c, strokes := newStrokes, isModified := True\<rparr>))
      else s\<lparr>currentColor := c\<rparr>)"

definition setCurrentStrokeWidth :: "real \<Rightarrow> WhiteboardState \<Rightarrow> WhiteboardState" where
  "setCurrentStrokeWidth width s = s\<lparr>currentStrokeWidth := width\<rparr>"

definition setZoom :: "real \<Rightarrow> WhiteboardState \<Rightarrow> WhiteboardState" where
  "setZoom z s = s\<lparr>zoom := z\<rparr>"

definition setPan :: "real \<Rightarrow> real \<Rightarrow> WhiteboardState \<Rightarrow> WhiteboardState" where
  "setPan x y s = s\<lparr>panX := x, panY := y\<rparr>"

definition resetView :: "WhiteboardState \<Rightarrow> WhiteboardState" where
  "resetView s = s\<lparr>zoom := 1, panX := 0, panY := 0\<rparr>"

subsection \<open>Document actions and clear\<close>

definition newDocument :: "WhiteboardState \<Rightarrow> WhiteboardState" where
  "newDocument s =
     s\<lparr>strokes := [], currentStroke := None, history := [[]], historyIndex := 0,
       editingText := None, isDrawingShape := False, shapeStartPoint := None,
       selectedStrokes := [], selectionBox := None, isSelecting := False, isDragging := False,
       dragStart := None, resizeHandle := None, currentDocument := None, isModified := False,
       zoom := 1, panX := 0, panY := 0\<rparr>"

definition loadDocument :: "WhiteboardDocument \<Rightarrow> WhiteboardState \<Rightarrow> WhiteboardState" where
  "loadDocument document s =
     s\<lparr>strokes := docStrokes document, currentStroke := None,
       history := [docStrokes document], historyIndex := 0,
       editingText := None, isDrawingShape := False, shapeStartPoint := None,
       selectedStrokes := [], selectionBox := None, isSelecting := False, isDragging := False,
       dragStart := None, resizeHandle := None, currentDocument := Some document,
       isModified := False, zoom := 1, panX := 0, panY := 0\<rparr>"

text \<open>
  \<open>Date.now()\<close>, its decimal string, the default name and the thumbnail drawn on a canvas
  are inputs of \<open>saveDocument\<close> and \<open>duplicateDocument\<close>.
\<close>

definition saveDocument ::
  "nat \<Rightarrow> string \<Rightarrow> string \<Rightarrow> string option \<Rightarrow> WhiteboardState \<Rightarrow> WhiteboardState" where
  "saveDocument now nowId documentName thumb s =
     (case currentDocument s of
        Some cur \<Rightarrow>
          (let updatedDocument = cur\<lparr>docName := documentName, docStrokes := strokes s,
                                     updatedAt := now, thumbnail := thumb\<rparr>;
               updatedDocuments = map (\<lambda>doc. if docId doc = docId cur then updatedDocument else doc)
                                    (savedDocuments s)
           in s\<lparr>currentDocument := Some updatedDocument, savedDocuments := updatedDocuments,
                isModified := False\<rparr>)
      | None \<Rightarrow>
          (let newDoc = \<lparr>docId = nowId, docName = documentName, docStrokes = strokes s,
                         createdAt = now, updatedAt = now, thumbnail = thumb\<rparr>
           in s\<lparr>currentDocument := Some newDoc, savedDocuments := savedDocuments s @ [newDoc],
                isModified := False\<rparr>))"

definition deleteDocument :: "string \<Rightarrow> WhiteboardState \<Rightarrow> WhiteboardState" where
  "deleteDocument i s =
     (let updatedDocuments = filter (\<lambda>doc. docId doc \<noteq> i) (savedDocuments s);
          newCurrentDocument =
            (case currentDocument s of
               Some cur \<Rightarrow> if docId cur = i then None else Some cur
             | None \<Rightarrow> None);
          s1 = s\<lparr>savedDocuments := updatedDocuments, currentDocument := newCurrentDocument\<rparr>
      in if newCurrentDocument = None then newDocument s1 else s1)"

definition duplicateDocument :: "nat \<Rightarrow> string \<Rightarrow> string \<Rightarrow> WhiteboardState \<Rightarrow> WhiteboardState" where
  "duplicateDocument now nowId i s =
     (case find (\<lambda>doc. docId doc = i) (savedDocuments s) of
        None \<Rightarrow> s
      | Some originalDoc \<Rightarrow>
          s\<lparr>savedDocuments := savedDocuments s @
               [\<lparr>docId = nowId, docName = docName originalDoc @ '' (Copy)'',
                 docStrokes = docStrokes originalDoc, createdAt = now, updatedAt = now,
                 thumbnail = thumbnail originalDoc\<rparr>]\<rparr>)"

definition clear :: "WhiteboardState \<Rightarrow> WhiteboardState" where
  "clear s =
     pushHistory []
       (s\<lparr>strokes := [], currentStroke := None, editingText := None, isDrawingShape := False,
          shapeStartPoint := None, selectedStrokes := [], selectionBox := None,
          isSelecting := False, isDragging := False, dragStart := None, resizeHandle := None,
          isRotating := False, rotateStart := None, isModified := True\<rparr>)"

subsection \<open>The actions as a transition system\<close>

datatype Op =
    SetCurrentTool Tool
  | SetCurrentColor string
  | SetCurrentStrokeWidth real
  | SetZoom real
  | SetPan real real
  | ResetView
  | AddStroke Stroke
  | SetCurrentStroke "Stroke option"
  | FinishStroke
  | StartShape string Point
  | UpdateShape Point
  | FinishShape
  | SelectStroke string bool
  | SelectMultiple "string list"
  | ClearSelection
  | DeleteSelected
  | StartSelection Point
  | UpdateSelection Point
  | FinishSelection
  | StartDrag Point
  | UpdateDrag Point
  | FinishDrag
  | StartResize string Point
  | UpdateResize Point
  | FinishResize
  | StartRotate Point
  | UpdateRotate Point
  | FinishRotate
  | StartTextEdit string Point
  | UpdateText string
  | FinishTextEdit
  | SetEditingText "EditingText option"
  | EraseAtPoint real real real
  | Undo
  | Redo
  | NewDocument
  | SaveDocument nat string string "string option"
  | LoadDocument WhiteboardDocument
  | DeleteDocument string
  | DuplicateDocument nat string string
  | Clear

text \<open>One call of an action of the store; \<open>ctx\<close> is the text measurer of the browser.\<close>

fun exec :: "Measurer \<Rightarrow> Op \<Rightarrow> WhiteboardState \<Rightarrow> Error + WhiteboardState" where
  "exec ctx (SetCurrentTool t) s = Inr (setCurrentTool t s)"
| "exec ctx (SetCurrentColor c) s = Inr (setCurrentColor c s)"
| "exec ctx (SetCurrentStrokeWidth w) s = Inr (setCurrentStrokeWidth w s)"
| "exec ctx (SetZoom z) s = Inr (setZoom z s)"
| "exec ctx (SetPan x y) s = Inr (setPan x y s)"
| "exec ctx ResetView s = Inr (resetView s)"
| "exec ctx (AddStroke st) s = Inr (addStroke st s)"
| "exec ctx (SetCurrentStroke st) s = Inr (setCurrentStroke st s)"
| "exec ctx FinishStroke s = Inr (finishStroke s)"
| "exec ctx (StartShape i p) s = Inr (startShape i p s)"
| "exec ctx (UpdateShape p) s = Inr (updateShape p s)"
| "exec ctx FinishShape s = Inr (finishShape s)"
| "exec ctx (SelectStroke i a) s = Inr (selectStroke i a s)"
| "exec ctx (SelectMultiple ids) s = Inr (selectMultiple ids s)"
| "exec ctx ClearSelection s = Inr (clearSelection s)"
| "exec ctx DeleteSelected s = Inr (deleteSelected s)"
| "exec ctx (StartSelection p) s = Inr (startSelection p s)"
| "exec ctx (UpdateSelection p) s = Inr (updateSelection p s)"
| "exec ctx FinishSelection s = Inr (finishSelection ctx s)"
| "exec ctx (StartDrag p) s = Inr (startDrag p s)"
| "exec ctx (UpdateDrag p) s = Inr (updateDrag p s)"
| "exec ctx FinishDrag s = Inr (finishDrag s)"
| "exec ctx (StartResize h p) s = Inr (startResize h p s)"
| "exec ctx (UpdateResize p) s = Inr (updateResize p s)"
| "exec ctx FinishResize s = Inr (finishResize s)"
| "exec ctx (StartRotate p) s = Inr (startRotate p s)"
| "exec ctx (UpdateRotate p) s = Inr (updateRotate ctx p s)"
| "exec ctx FinishRotate s = Inr (finishRotate s)"
| "exec ctx (StartTextEdit i p) s = Inr (startTextEdit i p s)"
| "exec ctx (UpdateText t) s = Inr (updateText t s)"
| "exec ctx FinishTextEdit s = Inr (finishTextEdit s)"
| "exec ctx (SetEditingText e) s = Inr (setEditingText e s)"
| "exec ctx (EraseAtPoint x y r) s = eraseAtPoint x y r s"
| "exec ctx Undo s = Inr (undo s)"
| "exec ctx Redo s = Inr (redo s)"
| "exec ctx NewDocument s = Inr (newDocument s)"
| "exec ctx (SaveDocument now nowId name thumb) s = Inr (saveDocument now nowId name thumb s)"
| "exec ctx (LoadDocument d) s = Inr (loadDocument d s)"
| "exec ctx (DeleteDocument i) s = Inr (deleteDocument i s)"
| "exec ctx (DuplicateDocument now nowId i) s = Inr (duplicateDocument now nowId i s)"
| "exec ctx Clear s = Inr (clear s)"

text \<open>An action that throws has not called \<open>set\<close>: the store is as it was.\<close>

definition step :: "Measurer \<Rightarrow> Op \<Rightarrow> WhiteboardState \<Rightarrow> WhiteboardState" where
  "step ctx op s = (case exec ctx op s of Inr s' \<Rightarrow> s' | Inl e \<Rightarrow> s)"

definition run :: "Measurer \<Rightarrow> Op list \<Rightarrow> WhiteboardState \<Rightarrow> WhiteboardState" where
  "run ctx ops s = foldl (\<lambda>s op. step ctx op s) s ops"

text \<open>
  The store is wrapped in \<open>persist\<close>: when it is created, the fields that \<open>partialize\<close>
  names are read back from the storage into the initial state.
\<close>

record Persisted =
  pSavedDocuments :: "WhiteboardDocument list"
  pCurrentDocument :: "WhiteboardDocument option"
  pCurrentTool :: Tool
  pCurrentColor :: string
  pCurrentStrokeWidth :: real

definition rehydrate :: "Persisted \<Rightarrow> WhiteboardState \<Rightarrow> WhiteboardState" where
  "rehydrate p s =
     s\<lparr>savedDocuments := pSavedDocuments p, currentDocument := pCurrentDocument p,
       currentTool := pCurrentTool p, currentColor := pCurrentColor p,
       currentStrokeWidth := pCurrentStrokeWidth p\<rparr>"

inductive reachable :: "Measurer \<Rightarrow> WhiteboardState \<Rightarrow> bool" for ctx :: Measurer where
  reachable_init: "reachable ctx initialState"
| reachable_rehydrated: "reachable ctx (rehydrate p initialState)"
| reachable_step: "reachable ctx s \<Longrightarrow> exec ctx op s = Inr s' \<Longrightarrow> reachable ctx s'"

text \<open>
  The guard under which a call takes the branch that writes the history (a committed
  mutating operation), read off the action's code.
\<close>

fun commits :: "Op \<Rightarrow> WhiteboardState \<Rightarrow> bool" where
  "commits (AddStroke st) s = True"
| "commits FinishStroke s = (currentStroke s \<noteq> None)"
| "commits FinishShape s = (currentStroke s \<noteq> None \<and> isDrawingShape s)"
| "commits (EraseAtPoint x y r) s =
     (case filterErase x y r (strokes s) of
        Inr newStrokes \<Rightarrow> length newStrokes \<noteq> length (strokes s)
      | Inl e \<Rightarrow> False)"
| "commits FinishDrag s = isDragging s"
| "commits FinishResize s = handleActive s"
| "commits FinishRotate s = isRotating s"
| "commits DeleteSelected s = True"
| "commits Clear s = True"
| "commits (SetCurrentColor c) s = (currentTool s = Select \<and> length (selectedStrokes s) > 0)"
| "commits FinishTextEdit s =
     (case editingText s of Some et \<Rightarrow> trim (etext et) \<noteq> [] | None \<Rightarrow> False)"
| "commits _ s = False"

text \<open>The actions that move within the history or replace it.\<close>

fun navigates :: "Op \<Rightarrow> bool" where
  "navigates Undo = True"
| "navigates Redo = True"
| "navigates NewDocument = True"
| "navigates (LoadDocument d) = True"
| "navigates (DeleteDocument i) = True"
| "navigates _ = False"

fun countCommits :: "Measurer \<Rightarrow> Op list \<Rightarrow> WhiteboardState \<Rightarrow> nat" where
  "countCommits ctx [] s = 0"
| "countCommits ctx (op # ops) s =
     (if commits op s then 1 else 0) + countCommits ctx ops (step ctx op s)"

fun endsWithCommit :: "Measurer \<Rightarrow> Op list \<Rightarrow> WhiteboardState \<Rightarrow> bool" where
  "endsWithCommit ctx [] s = False"
| "endsWithCommit ctx [op] s = commits op s"
| "endsWithCommit ctx (op # ops) s = endsWithCommit ctx ops (step ctx op s)"


text \<open>
  The two facts about the history that the properties below speak of: the strokes on
  screen are the current snapshot, and the current snapshot is the last one.
\<close>

definition synced :: "WhiteboardState \<Rightarrow> bool" where
  "synced s = (historyIndex s < length (history s) \<and> strokes s = history s ! historyIndex s)"

definition atTip :: "WhiteboardState \<Rightarrow> bool" where
  "atTip s = (historyIndex s + 1 = length (history s))"

subsection \<open>A sample scene\<close>

text \<open>Strokes and marquees for the closed instances of the properties below.\<close>

definition samplePen :: Stroke where
  "samplePen = createPenStroke ''a'' \<lparr>px = 20, py = 20\<rparr> ''#2563eb'' 4"

definition sampleRect :: Stroke where
  "sampleRect =
     createShapeStroke ''b'' Rectangle \<lparr>px = 0, py = 0\<rparr> \<lparr>px = 100, py = 50\<rparr> ''#2563eb'' 4"

definition sampleText :: Stroke where
  "sampleText = createTextStroke ''t'' \<lparr>px = -10, py = 0\<rparr> ''Hi'' ''#2563eb'' 4 None"

definition sampleNear :: Stroke where
  "sampleNear =
     createShapeStroke ''n'' Rectangle \<lparr>px = 0, py = 0\<rparr> \<lparr>px = 10, py = 10\<rparr> ''#2563eb'' 4"

definition sampleFar :: Stroke where
  "sampleFar =
     createShapeStroke ''f'' Rectangle \<lparr>px = 100, py = 100\<rparr> \<lparr>px = 110, py = 110\<rparr> ''#2563eb'' 4"

definition sampleMarquee :: SelectionBox where
  "sampleMarquee = \<lparr>startX = -5, startY = -5, endX = 20, endY = 20\<rparr>"

text \<open>A diagonal pen stroke, and the same stroke turned by 45 degrees.\<close>

definition sampleDiagonal :: Stroke where
  "sampleDiagonal =
     updateStrokePoints (createPenStroke ''d'' \<lparr>px = 0, py = 0\<rparr> ''#2563eb'' 4)
       [\<lparr>px = 0, py = 0\<rparr>, \<lparr>px = 2, py = 2\<rparr>]"

definition sampleTurned :: Stroke where
  "sampleTurned = applyRotation sampleDiagonal (pi / 4)"

text \<open>Two strokes drawn, the second one selected and dragged by (3, 4).\<close>

definition sampleOps :: "Op list" where
  "sampleOps = [AddStroke samplePen, AddStroke sampleRect, SelectStroke ''b'' False,
     StartDrag \<lparr>px = 5, py = 5\<rparr>, UpdateDrag \<lparr>px = 8, py = 9\<rparr>, FinishDrag]"

text \<open>A measurer that gives every character half the font size.\<close>

definition sampleMeasurer :: Measurer where
  "sampleMeasurer = Some (\<lambda>fs line. fs * 0.5 * real (length line))"

section \<open>Shared lemmas on the history\<close>

lemma pushHistory_simps:
  "history (pushHistory x s) = take (historyIndex s + 1) (history s) @ [x]"
  "historyIndex (pushHistory x s) = length (take (historyIndex s + 1) (history s))"
  "strokes (pushHistory x s) = strokes s"
  "selectedStrokes (pushHistory x s) = selectedStrokes s"
  by (simp_all add: pushHistory_def Let_def)

lemmas action_defs =
  setCurrentTool_def setCurrentColor_def setCurrentStrokeWidth_def setZoom_def setPan_def
  resetView_def addStroke_def setCurrentStroke_def finishStroke_def startShape_def
  updateShape_def finishShape_def selectStroke_def selectMultiple_def clearSelection_def
  deleteSelected_def startSelection_def updateSelection_def finishSelection_def startDrag_def
  updateDrag_def finishDrag_def startResize_def updateResize_def finishResize_def
  startRotate_def updateRotate_def finishRotate_def startTextEdit_def updateText_def
  finishTextEdit_def setEditingText_def eraseAtPoint_def undo_def redo_def newDocument_def
  saveDocument_def loadDocument_def deleteDocument_def duplicateDocument_def clear_def

lemma commit_effect:
  assumes "commits op s" "exec ctx op s = Inr s'"
  shows "history s' = take (historyIndex s + 1) (history s) @ [strokes s']
       \<and> historyIndex s' = length (history s') - 1"
  using assms
  by (cases op) (auto simp: action_defs pushHistory_simps Let_def split: option.splits sum.splits if_splits)

lemma nocommit_effect:
  assumes "\<not> commits op s" "\<not> navigates op" "exec ctx op s = Inr s'"
  shows "history s' = history s \<and> historyIndex s' = historyIndex s"
  using assms
  by (cases op) (auto simp: action_defs pushHistory_simps Let_def split: option.splits sum.splits if_splits prod.splits)

lemma throw_no_commit: "exec ctx op s = Inl e \<Longrightarrow> \<not> commits op s"
  by (cases op) (auto simp: eraseAtPoint_def split: sum.splits if_splits)

lemma navigate_effect:
  assumes "navigates op" "exec ctx op s = Inr s'" "historyIndex s < length (history s)"
  shows "historyIndex s' < length (history s')
       \<and> (history s' \<noteq> history s \<or> historyIndex s' \<noteq> historyIndex s
            \<longrightarrow> strokes s' = history s' ! historyIndex s')"
  using assms
  by (cases op) (auto simp: action_defs Let_def split: option.splits if_splits)

lemma undo_synced: "synced s \<Longrightarrow> synced (undo s)"
  by (auto simp: synced_def undo_def Let_def)

lemma redo_synced: "synced s \<Longrightarrow> synced (redo s)"
  by (auto simp: synced_def redo_def Let_def)

lemma undo_pow_synced: "synced s \<Longrightarrow> synced ((undo ^^ k) s)"
  by (induction k) (auto intro: undo_synced)

lemma redo_pow_synced: "synced s \<Longrightarrow> synced ((redo ^^ k) s)"
  by (induction k) (auto intro: redo_synced)

lemma undo_pow_history:
  "history ((undo ^^ k) s) = history s \<and> historyIndex ((undo ^^ k) s) = historyIndex s - k"
  by (induction k) (auto simp: undo_def Let_def)

lemma redo_pow_history:
  "historyIndex s < length (history s) \<Longrightarrow>
   history ((redo ^^ k) s) = history s
   \<and> historyIndex ((redo ^^ k) s) = min (historyIndex s + k) (length (history s) - 1)"
  by (induction k) (auto simp: redo_def Let_def)

lemma undo_redo_pow:
  assumes "synced s" "k \<le> historyIndex s"
  shows "strokes ((redo ^^ k) ((undo ^^ k) s)) = strokes s"
proof -
  let ?u = "(undo ^^ k) s"
  let ?r = "(redo ^^ k) ?u"
  have u: "history ?u = history s" "historyIndex ?u = historyIndex s - k"
    using undo_pow_history [of k s] by simp_all
  have lt: "historyIndex s < length (history s)"
    using assms(1) by (simp add: synced_def)
  then have ult: "historyIndex ?u < length (history ?u)"
    using u by simp
  have r: "history ?r = history s" "historyIndex ?r = historyIndex s"
    using redo_pow_history [OF ult, of k] u assms(2) lt by auto
  have "synced ?r"
    using assms(1) by (intro redo_pow_synced undo_pow_synced)
  then have "strokes ?r = history ?r ! historyIndex ?r"
    by (simp add: synced_def)
  also have "\<dots> = strokes s"
    using r assms(1) by (simp add: synced_def)
  finally show ?thesis .
qed

lemma step_commit:
  assumes "commits op s"
  shows "history (step ctx op s) = take (historyIndex s + 1) (history s) @ [strokes (step ctx op s)]
       \<and> historyIndex (step ctx op s) = length (history (step ctx op s)) - 1"
proof (cases "exec ctx op s")
  case (Inl e)
  then show ?thesis using assms throw_no_commit by blast
next
  case (Inr s')
  then show ?thesis using commit_effect [OF assms Inr] by (simp add: step_def)
qed

lemma step_nocommit:
  assumes "\<not> commits op s" "\<not> navigates op"
  shows "history (step ctx op s) = history s \<and> historyIndex (step ctx op s) = historyIndex s"
proof (cases "exec ctx op s")
  case (Inl e)
  then show ?thesis by (simp add: step_def)
next
  case (Inr s')
  then show ?thesis using nocommit_effect [OF assms Inr] by (simp add: step_def)
qed

lemma step_atTip:
  assumes "atTip s" "\<not> navigates op"
  shows "atTip (step ctx op s)
       \<and> historyIndex (step ctx op s) = historyIndex s + (if commits op s then 1 else 0)
       \<and> (commits op s \<longrightarrow> synced (step ctx op s))"
proof (cases "commits op s")
  case True
  then show ?thesis
    using step_commit [OF True, of ctx] assms(1) by (auto simp: atTip_def synced_def nth_append)
next
  case False
  then show ?thesis
    using step_nocommit [OF False assms(2), of ctx] assms(1) by (auto simp: atTip_def)
qed

lemma run_Cons: "run ctx (op # ops) s = run ctx ops (step ctx op s)"
  by (simp add: run_def)

lemma run_atTip:
  assumes "atTip s" "list_all (\<lambda>op. \<not> navigates op) ops"
  shows "atTip (run ctx ops s)
       \<and> historyIndex (run ctx ops s) = historyIndex s + countCommits ctx ops s
       \<and> (endsWithCommit ctx ops s \<longrightarrow> synced (run ctx ops s))"
  using assms
proof (induction ops arbitrary: s)
  case Nil
  then show ?case by (simp add: run_def)
next
  case (Cons op ops)
  have st: "atTip (step ctx op s)"
    "historyIndex (step ctx op s) = historyIndex s + (if commits op s then 1 else 0)"
    "commits op s \<longrightarrow> synced (step ctx op s)"
    using step_atTip [of s op ctx] Cons.prems by simp_all
  have ih: "atTip (run ctx ops (step ctx op s))"
    "historyIndex (run ctx ops (step ctx op s)) = historyIndex (step ctx op s) + countCommits ctx ops (step ctx op s)"
    "endsWithCommit ctx ops (step ctx op s) \<longrightarrow> synced (run ctx ops (step ctx op s))"
    using Cons.IH [OF st(1)] Cons.prems(2) by simp_all
  show ?case
  proof (cases ops)
    case Nil
    then show ?thesis using st by (simp add: run_def)
  next
    case (Cons b bs)
    then show ?thesis using st ih by (simp add: run_Cons)
  qed
qed

lemma reachable_index:
  assumes "reachable ctx s"
  shows "historyIndex s < length (history s)"
  using assms
proof (induction rule: reachable.induct)
  case reachable_init
  then show ?case by (simp add: initialState_def)
next
  case (reachable_rehydrated p)
  then show ?case by (simp add: rehydrate_def initialState_def)
next
  case (reachable_step s op s')
  show ?case
  proof (cases "commits op s")
    case True
    then show ?thesis using commit_effect [OF True reachable_step.hyps(2)] by simp
  next
    case nc: False
    show ?thesis
    proof (cases "navigates op")
      case True
      then show ?thesis using navigate_effect [OF True reachable_step.hyps(2) reachable_step.IH] by simp
    next
      case False
      then show ?thesis using nocommit_effect [OF nc False reachable_step.hyps(2)] reachable_step.IH by simp
    qed
  qed
qed

lemmas sample_defs = samplePen_def sampleRect_def sampleText_def sampleNear_def sampleFar_def
  sampleMarquee_def sampleMeasurer_def createPenStroke_def createShapeStroke_def
  createTextStroke_def

lemmas eval_defs = run_def step_def action_defs pushHistory_def initialState_def Let_def
  dragStroke_def

lemma reachable_stepI: "reachable ctx s \<Longrightarrow> reachable ctx (step ctx op s)"
  by (cases "exec ctx op s") (auto simp: step_def intro: reachable_step)

lemma reachable_run: "reachable ctx s \<Longrightarrow> reachable ctx (run ctx ops s)"
  unfolding run_def by (induction ops arbitrary: s) (auto intro: reachable_stepI)

section \<open>Undo and redo\<close>

text \<open>
  C1. Run any sequence of actions from the initial state that contains no undo, redo or
  document reset and whose last action commits (or the empty sequence), and let N be the
  number of commits in it. Then the history holds N + 1 snapshots with the index at N, and
  for every k \<le> N, k undos followed by k redos give back the strokes that were current
  before the undos.
\<close>

theorem undo_redo_roundtrip:
  assumes "list_all (\<lambda>op. \<not> navigates op) ops"
    and "ops = [] \<or> endsWithCommit ctx ops initialState"
    and "k \<le> countCommits ctx ops initialState"
  shows "historyIndex (run ctx ops initialState) = countCommits ctx ops initialState
       \<and> length (history (run ctx ops initialState)) = countCommits ctx ops initialState + 1
       \<and> strokes ((redo ^^ k) ((undo ^^ k) (run ctx ops initialState)))
           = strokes (run ctx ops initialState)"
proof -
  have tip0: "atTip initialState"
    by (simp add: atTip_def initialState_def)
  have sync0: "synced initialState"
    by (simp add: synced_def initialState_def)
  note r = run_atTip [OF tip0 assms(1), of ctx]
  have idx: "historyIndex (run ctx ops initialState) = countCommits ctx ops initialState"
    using r by (simp add: initialState_def)
  have len: "length (history (run ctx ops initialState)) = countCommits ctx ops initialState + 1"
    using r idx by (simp add: atTip_def)
  have "synced (run ctx ops initialState)"
    using assms(2) r sync0 by (auto simp: run_def)
  then show ?thesis
    using undo_redo_pow [of "run ctx ops initialState" k] assms(3) idx len by simp
qed

theorem undo_redo_roundtrip_witness:
  "list_all (\<lambda>op. \<not> navigates op) sampleOps
   \<and> endsWithCommit None sampleOps initialState
   \<and> (2::nat) \<le> countCommits None sampleOps initialState
   \<and> countCommits None sampleOps initialState = 3
   \<and> strokes ((undo ^^ 2) (run None sampleOps initialState)) = [samplePen]
   \<and> strokes ((redo ^^ 2) ((undo ^^ 2) (run None sampleOps initialState)))
        = strokes (run None sampleOps initialState)
   \<and> strokes (run None sampleOps initialState) =
        [samplePen\<lparr>selected := Some False\<rparr>,
         sampleRect\<lparr>selected := Some True, startPoint := Some \<lparr>px = 3, py = 4\<rparr>,
                     endPoint := Some \<lparr>px = 103, py = 54\<rparr>\<rparr>]"
proof -
  have h1: "list_all (\<lambda>op. \<not> navigates op) sampleOps"
    by (simp add: sampleOps_def)
  have h2: "sampleOps = [] \<or> endsWithCommit None sampleOps initialState"
    by (simp add: sampleOps_def eval_defs sample_defs)
  have n: "countCommits None sampleOps initialState = 3"
    by (simp add: sampleOps_def eval_defs sample_defs)
  have h3: "(2::nat) \<le> countCommits None sampleOps initialState"
    by (simp add: n)
  have u: "strokes ((undo ^^ 2) (run None sampleOps initialState)) = [samplePen]"
    by (simp add: sampleOps_def eval_defs sample_defs numeral_2_eq_2)
  have v: "strokes (run None sampleOps initialState) =
        [samplePen\<lparr>selected := Some False\<rparr>,
         sampleRect\<lparr>selected := Some True, startPoint := Some \<lparr>px = 3, py = 4\<rparr>,
                     endPoint := Some \<lparr>px = 103, py = 54\<rparr>\<rparr>]"
    by (simp add: sampleOps_def eval_defs sample_defs)
  show ?thesis
    using undo_redo_roundtrip [OF h1 h2 h3] h1 h2 h3 n u v by (simp add: sampleOps_def)
qed

section \<open>Committing actions and the redo branch\<close>

text \<open>
  C2. In a state with \<open>historyIndex < history.length\<close>, an action that commits replaces the
  history by its prefix of length \<open>historyIndex + 1\<close> followed by exactly one new snapshot,
  the new strokes, and puts the index on it, so that \<open>canRedo\<close> is false afterwards; an
  action that neither commits nor navigates leaves history and index alone. After an undo
  that took effect, a committing action leaves the snapshots before the undone one plus
  the new one: the undone snapshot and everything after it are gone from the array.
\<close>

theorem commit_truncates_history:
  assumes "exec ctx op s = Inr s'" and "historyIndex s < length (history s)"
  shows "(commits op s \<longrightarrow>
            history s' = take (historyIndex s + 1) (history s) @ [strokes s']
          \<and> length (history s') = historyIndex s + 2
          \<and> historyIndex s' = length (history s') - 1
          \<and> \<not> canRedo s'
          \<and> (\<forall>s0. canUndo s0 \<and> s = undo s0 \<longrightarrow>
                history s' = take (historyIndex s0) (history s0) @ [strokes s']
              \<and> length (history s') = historyIndex s0 + 1))
       \<and> (\<not> commits op s \<and> \<not> navigates op \<longrightarrow>
            history s' = history s \<and> historyIndex s' = historyIndex s)"
proof (intro conjI impI)
  assume c: "commits op s"
  note e = commit_effect [OF c assms(1)]
  show h: "history s' = take (historyIndex s + 1) (history s) @ [strokes s']"
    using e by simp
  show l: "length (history s') = historyIndex s + 2"
    using h assms(2) by simp
  show "historyIndex s' = length (history s') - 1"
    using e by simp
  then show "\<not> canRedo s'"
    by (simp add: canRedo_def)
  show "\<forall>s0. canUndo s0 \<and> s = undo s0 \<longrightarrow>
          history s' = take (historyIndex s0) (history s0) @ [strokes s']
        \<and> length (history s') = historyIndex s0 + 1"
  proof (intro allI impI)
    fix s0
    assume u: "canUndo s0 \<and> s = undo s0"
    then have "history s = history s0" "historyIndex s + 1 = historyIndex s0"
      by (auto simp: canUndo_def undo_def Let_def)
    then show "history s' = take (historyIndex s0) (history s0) @ [strokes s']
        \<and> length (history s') = historyIndex s0 + 1"
      using h l by simp
  qed
next
  assume "\<not> commits op s \<and> \<not> navigates op"
  then show "history s' = history s" "historyIndex s' = historyIndex s"
    using nocommit_effect [OF _ _ assms(1)] by simp_all
qed

theorem commit_truncates_history_witness:
  "exec None (AddStroke sampleText)
      (undo (run None [AddStroke samplePen, AddStroke sampleRect] initialState))
     = Inr (addStroke sampleText
              (undo (run None [AddStroke samplePen, AddStroke sampleRect] initialState)))
   \<and> historyIndex (undo (run None [AddStroke samplePen, AddStroke sampleRect] initialState))
       < length (history (undo (run None [AddStroke samplePen, AddStroke sampleRect] initialState)))
   \<and> commits (AddStroke sampleText)
       (undo (run None [AddStroke samplePen, AddStroke sampleRect] initialState))
   \<and> canUndo (run None [AddStroke samplePen, AddStroke sampleRect] initialState)
   \<and> canRedo (undo (run None [AddStroke samplePen, AddStroke sampleRect] initialState))
   \<and> \<not> canRedo (addStroke sampleText
         (undo (run None [AddStroke samplePen, AddStroke sampleRect] initialState)))
   \<and> history (run None [AddStroke samplePen, AddStroke sampleRect] initialState)
       = [[], [samplePen], [samplePen, sampleRect]]
   \<and> history (addStroke sampleText
         (undo (run None [AddStroke samplePen, AddStroke sampleRect] initialState)))
       = [[], [samplePen], [samplePen, sampleText]]
   \<and> \<not> commits (SelectStroke ''a'' False) (run None [AddStroke samplePen] initialState)
   \<and> \<not> navigates (SelectStroke ''a'' False)
   \<and> history (selectStroke ''a'' False (run None [AddStroke samplePen] initialState))
       = history (run None [AddStroke samplePen] initialState)"
proof -
  let ?s0 = "run None [AddStroke samplePen, AddStroke sampleRect] initialState"
  let ?s1 = "run None [AddStroke samplePen] initialState"
  have e: "exec None (AddStroke sampleText) (undo ?s0) = Inr (addStroke sampleText (undo ?s0))"
    by simp
  have i: "historyIndex (undo ?s0) < length (history (undo ?s0))"
    by (simp add: eval_defs)
  have c: "commits (AddStroke sampleText) (undo ?s0)"
    by simp
  have u: "canUndo ?s0" "canRedo (undo ?s0)"
    by (simp_all add: canUndo_def canRedo_def eval_defs)
  have h0: "history ?s0 = [[], [samplePen], [samplePen, sampleRect]]"
    by (simp add: eval_defs)
  have h1: "history (addStroke sampleText (undo ?s0)) = [[], [samplePen], [samplePen, sampleText]]"
    by (simp add: eval_defs)
  have e2: "exec None (SelectStroke ''a'' False) ?s1 = Inr (selectStroke ''a'' False ?s1)"
    by simp
  have i2: "historyIndex ?s1 < length (history ?s1)"
    by (simp add: eval_defs)
  show ?thesis
    using commit_truncates_history [OF e i] commit_truncates_history [OF e2 i2] e i c u h0 h1
    by simp
qed

section \<open>The history invariant\<close>

text \<open>
  C3, as the code has it. In every state reachable through the actions of the store,
  \<open>historyIndex < history.length\<close>. The strokes equal \<open>history[historyIndex]\<close> right after
  every call that commits or that changes the history or the index (an undo or redo that
  took effect, a document reset); they do not in every reachable state, since selection,
  gesture updates and live text edits rewrite the strokes without touching the history.
\<close>

theorem history_invariant:
  assumes "reachable ctx s"
  shows "historyIndex s < length (history s)
       \<and> (\<forall>op s'. exec ctx op s = Inr s' \<longrightarrow>
            historyIndex s' < length (history s')
          \<and> (commits op s \<or> history s' \<noteq> history s \<or> historyIndex s' \<noteq> historyIndex s
               \<longrightarrow> strokes s' = history s' ! historyIndex s'))"
proof (intro conjI allI impI)
  show i: "historyIndex s < length (history s)"
    using assms by (rule reachable_index)
  fix op s'
  assume e: "exec ctx op s = Inr s'"
  show "historyIndex s' < length (history s')"
    using reachable_index [OF reachable_step [OF assms e]] .
  assume ch: "commits op s \<or> history s' \<noteq> history s \<or> historyIndex s' \<noteq> historyIndex s"
  show "strokes s' = history s' ! historyIndex s'"
  proof (cases "commits op s")
    case True
    then show ?thesis using commit_effect [OF True e] by (simp add: nth_append)
  next
    case nc: False
    show ?thesis
    proof (cases "navigates op")
      case True
      then show ?thesis using navigate_effect [OF True e i] ch nc by blast
    next
      case False
      then show ?thesis using nocommit_effect [OF nc False e] ch nc by simp
    qed
  qed
qed

theorem history_invariant_witness:
  "reachable None (run None [AddStroke samplePen] initialState)
   \<and> historyIndex (run None [AddStroke samplePen] initialState) = 1
   \<and> length (history (run None [AddStroke samplePen] initialState)) = 2
   \<and> exec None Undo (run None [AddStroke samplePen] initialState)
       = Inr (undo (run None [AddStroke samplePen] initialState))
   \<and> historyIndex (undo (run None [AddStroke samplePen] initialState))
       \<noteq> historyIndex (run None [AddStroke samplePen] initialState)
   \<and> strokes (undo (run None [AddStroke samplePen] initialState)) = []
   \<and> strokes (undo (run None [AddStroke samplePen] initialState))
       = history (undo (run None [AddStroke samplePen] initialState))
           ! historyIndex (undo (run None [AddStroke samplePen] initialState))"
proof -
  let ?s = "run None [AddStroke samplePen] initialState"
  have r: "reachable None ?s"
    by (intro reachable_run reachable_init)
  have e: "exec None Undo ?s = Inr (undo ?s)"
    by simp
  have v: "historyIndex ?s = 1" "length (history ?s) = 2" "historyIndex (undo ?s) = 0"
    "strokes (undo ?s) = []"
    by (simp_all add: eval_defs)
  have "historyIndex (undo ?s) \<noteq> historyIndex ?s
      \<longrightarrow> strokes (undo ?s) = history (undo ?s) ! historyIndex (undo ?s)"
    using history_invariant [OF r] e by blast
  then show ?thesis
    using r e v by simp
qed

theorem history_invariant_counterexample:
  "reachable None (run None [AddStroke samplePen, SelectStroke ''a'' False] initialState)
   \<and> strokes (run None [AddStroke samplePen, SelectStroke ''a'' False] initialState)
       \<noteq> history (run None [AddStroke samplePen, SelectStroke ''a'' False] initialState)
           ! historyIndex (run None [AddStroke samplePen, SelectStroke ''a'' False] initialState)"
proof -
  have "reachable None (run None [AddStroke samplePen, SelectStroke ''a'' False] initialState)"
    by (intro reachable_run reachable_init)
  then show ?thesis
    by (simp add: eval_defs sample_defs)
qed

section \<open>Resizing a shape\<close>

text \<open>
  C6. For a rectangle, ellipse or line with both end points, \<open>applyResize\<close> moves exactly
  the coordinates that the handle names (nw: start x and y; ne: end x, start y; sw: start
  x, end y; se: end x and y; n: start y; s: end y; w: start x; e: end x) and changes no
  other field; any other handle name changes nothing. Resizing the rectangle from (0,0) to
  (100,50) by handle se with dx = 10 and dy = 20 gives the bounds (0,0)-(110,70).
\<close>

theorem applyResize_shape_mapping:
  assumes "stype s \<in> {Rectangle, Ellipse, Line}"
    and "startPoint s = Some sp" and "endPoint s = Some ep"
  shows "applyResize s ''nw'' dx dy =
           s\<lparr>startPoint := Some \<lparr>px = px sp + dx, py = py sp + dy\<rparr>, endPoint := Some ep\<rparr>
       \<and> applyResize s ''ne'' dx dy =
           s\<lparr>startPoint := Some \<lparr>px = px sp, py = py sp + dy\<rparr>,
             endPoint := Some \<lparr>px = px ep + dx, py = py ep\<rparr>\<rparr>
       \<and> applyResize s ''sw'' dx dy =
           s\<lparr>startPoint := Some \<lparr>px = px sp + dx, py = py sp\<rparr>,
             endPoint := Some \<lparr>px = px ep, py = py ep + dy\<rparr>\<rparr>
       \<and> applyResize s ''se'' dx dy =
           s\<lparr>startPoint := Some sp, endPoint := Some \<lparr>px = px ep + dx, py = py ep + dy\<rparr>\<rparr>
       \<and> applyResize s ''n'' dx dy =
           s\<lparr>startPoint := Some \<lparr>px = px sp, py = py sp + dy\<rparr>, endPoint := Some ep\<rparr>
       \<and> applyResize s ''s'' dx dy =
           s\<lparr>startPoint := Some sp, endPoint := Some \<lparr>px = px ep, py = py ep + dy\<rparr>\<rparr>
       \<and> applyResize s ''w'' dx dy =
           s\<lparr>startPoint := Some \<lparr>px = px sp + dx, py = py sp\<rparr>, endPoint := Some ep\<rparr>
       \<and> applyResize s ''e'' dx dy =
           s\<lparr>startPoint := Some sp, endPoint := Some \<lparr>px = px ep + dx, py = py ep\<rparr>\<rparr>
       \<and> (h \<notin> {''nw'', ''ne'', ''sw'', ''se'', ''n'', ''s'', ''w'', ''e''}
            \<longrightarrow> applyResize s h dx dy = s)
       \<and> calculateBounds ctx
            (applyResize (createShapeStroke i Rectangle \<lparr>px = 0, py = 0\<rparr> \<lparr>px = 100, py = 50\<rparr> c w)
               ''se'' 10 20)
           = \<lparr>minX = 0, minY = 0, maxX = 110, maxY = 70\<rparr>"
proof -
  have scenario: "calculateBounds ctx
            (applyResize (createShapeStroke i Rectangle \<lparr>px = 0, py = 0\<rparr> \<lparr>px = 100, py = 50\<rparr> c w)
               ''se'' 10 20)
           = \<lparr>minX = 0, minY = 0, maxX = 110, maxY = 70\<rparr>"
    by (simp add: applyResize_def resizePoints_def createShapeStroke_def calculateBounds_def
        rotationOf_def)
  show ?thesis
    using assms scenario by (auto simp: applyResize_def resizePoints_def)
qed

theorem applyResize_shape_mapping_witness:
  "stype sampleRect \<in> {Rectangle, Ellipse, Line}
   \<and> startPoint sampleRect = Some \<lparr>px = 0, py = 0\<rparr>
   \<and> endPoint sampleRect = Some \<lparr>px = 100, py = 50\<rparr>
   \<and> applyResize sampleRect ''se'' 10 20 = sampleRect\<lparr>endPoint := Some \<lparr>px = 110, py = 70\<rparr>\<rparr>
   \<and> applyResize sampleRect ''nw'' 10 20 = sampleRect\<lparr>startPoint := Some \<lparr>px = 10, py = 20\<rparr>\<rparr>
   \<and> applyResize sampleRect ''rotate'' 10 20 = sampleRect
   \<and> calculateBounds None (applyResize sampleRect ''se'' 10 20)
       = \<lparr>minX = 0, minY = 0, maxX = 110, maxY = 70\<rparr>"
proof -
  have h: "stype sampleRect \<in> {Rectangle, Ellipse, Line}"
    "startPoint sampleRect = Some \<lparr>px = 0, py = 0\<rparr>"
    "endPoint sampleRect = Some \<lparr>px = 100, py = 50\<rparr>"
    by (simp_all add: sample_defs)
  show ?thesis
    using applyResize_shape_mapping [OF h, of 10 20 "''rotate''" None "''b''" "''#2563eb''" 4] h
    by (simp add: sample_defs applyResize_def resizePoints_def calculateBounds_def rotationOf_def)
qed

section \<open>Hit testing\<close>

lemma scanFrom_None:
  "scanFrom cb p ss n = None \<longleftrightarrow> (\<forall>i<n. \<not> hitsStroke cb p (ss ! i))"
  by (induction n) (auto simp: less_Suc_eq)

lemma scanFrom_Some:
  "scanFrom cb p ss n = Some s \<longleftrightarrow>
     (\<exists>i<n. s = ss ! i \<and> hitsStroke cb p (ss ! i) \<and> (\<forall>j. i < j \<and> j < n \<longrightarrow> \<not> hitsStroke cb p (ss ! j)))"
proof (induction n)
  case 0
  then show ?case by simp
next
  case (Suc n)
  show ?case
  proof (cases "hitsStroke cb p (ss ! n)")
    case True
    have "(\<exists>i<Suc n. s = ss ! i \<and> hitsStroke cb p (ss ! i)
             \<and> (\<forall>j. i < j \<and> j < Suc n \<longrightarrow> \<not> hitsStroke cb p (ss ! j))) \<longleftrightarrow> s = ss ! n"
    proof
      assume "\<exists>i<Suc n. s = ss ! i \<and> hitsStroke cb p (ss ! i)
             \<and> (\<forall>j. i < j \<and> j < Suc n \<longrightarrow> \<not> hitsStroke cb p (ss ! j))"
      then obtain i where i: "i < Suc n" "s = ss ! i"
        "\<forall>j. i < j \<and> j < Suc n \<longrightarrow> \<not> hitsStroke cb p (ss ! j)" by blast
      have "\<not> i < n" using i(3) True by auto
      then have "i = n" using i(1) by simp
      then show "s = ss ! n" using i(2) by simp
    next
      assume "s = ss ! n"
      then show "\<exists>i<Suc n. s = ss ! i \<and> hitsStroke cb p (ss ! i)
             \<and> (\<forall>j. i < j \<and> j < Suc n \<longrightarrow> \<not> hitsStroke cb p (ss ! j))"
        using True by (intro exI [of _ n]) auto
    qed
    then show ?thesis using True by auto
  next
    case False
    have "(\<exists>i<Suc n. s = ss ! i \<and> hitsStroke cb p (ss ! i)
             \<and> (\<forall>j. i < j \<and> j < Suc n \<longrightarrow> \<not> hitsStroke cb p (ss ! j)))
        \<longleftrightarrow> (\<exists>i<n. s = ss ! i \<and> hitsStroke cb p (ss ! i)
             \<and> (\<forall>j. i < j \<and> j < n \<longrightarrow> \<not> hitsStroke cb p (ss ! j)))"
      using False by (metis less_Suc_eq)
    then show ?thesis using False Suc.IH by simp
  qed
qed

text \<open>
  C5. \<open>getStrokeAtPoint\<close> returns the stroke of greatest index among those whose hit region
  contains the point, and null exactly when no region does; of two strokes that both
  contain the point it returns the later one. The region of a text stroke is the box that
  the bounds function computes, that of a shape its min/max box grown by 12 on every side,
  and a pen stroke is hit when a sample point lies within \<open>max(14, strokeWidth + 10)\<close> of
  the point.
\<close>

theorem getStrokeAtPoint_topmost:
  "(getStrokeAtPoint p ss cb = None \<longleftrightarrow> (\<forall>i<length ss. \<not> hitsStroke cb p (ss ! i)))
   \<and> (getStrokeAtPoint p ss cb = Some s \<longleftrightarrow>
        (\<exists>i<length ss. s = ss ! i \<and> hitsStroke cb p (ss ! i)
           \<and> (\<forall>j. i < j \<and> j < length ss \<longrightarrow> \<not> hitsStroke cb p (ss ! j))))
   \<and> (hitsStroke cb p a \<and> hitsStroke cb p b \<longrightarrow> getStrokeAtPoint p [a, b] cb = Some b)
   \<and> (stype st = Text \<and> points st \<noteq> [] \<longrightarrow>
        hitsStroke cb p st =
          (minX (cb st) \<le> px p \<and> px p \<le> maxX (cb st) \<and> minY (cb st) \<le> py p \<and> py p \<le> maxY (cb st)))
   \<and> (stype st \<in> {Rectangle, Ellipse, Line} \<and> startPoint st = Some sp \<and> endPoint st = Some ep \<longrightarrow>
        hitsStroke cb p st =
          (min (px sp) (px ep) - 12 \<le> px p \<and> px p \<le> max (px sp) (px ep) + 12
           \<and> min (py sp) (py ep) - 12 \<le> py p \<and> py p \<le> max (py sp) (py ep) + 12))
   \<and> (stype st = Pen \<and> (startPoint st = None \<or> endPoint st = None) \<longrightarrow>
        hitsStroke cb p st =
          (\<exists>q\<in>set (points st).
             sqrt ((px q - px p)\<^sup>2 + (py q - py p)\<^sup>2) \<le> max 14 (strokeWidth st + 10)))"
proof (intro conjI)
  show "getStrokeAtPoint p ss cb = None \<longleftrightarrow> (\<forall>i<length ss. \<not> hitsStroke cb p (ss ! i))"
    by (simp add: getStrokeAtPoint_def scanFrom_None)
  show "getStrokeAtPoint p ss cb = Some s \<longleftrightarrow>
        (\<exists>i<length ss. s = ss ! i \<and> hitsStroke cb p (ss ! i)
           \<and> (\<forall>j. i < j \<and> j < length ss \<longrightarrow> \<not> hitsStroke cb p (ss ! j)))"
    by (simp add: getStrokeAtPoint_def scanFrom_Some)
  show "hitsStroke cb p a \<and> hitsStroke cb p b \<longrightarrow> getStrokeAtPoint p [a, b] cb = Some b"
    by (simp add: getStrokeAtPoint_def numeral_2_eq_2)
  show "stype st = Text \<and> points st \<noteq> [] \<longrightarrow>
        hitsStroke cb p st =
          (minX (cb st) \<le> px p \<and> px p \<le> maxX (cb st) \<and> minY (cb st) \<le> py p \<and> py p \<le> maxY (cb st))"
    by (auto simp: hitsStroke_def Let_def)
  show "stype st \<in> {Rectangle, Ellipse, Line} \<and> startPoint st = Some sp \<and> endPoint st = Some ep \<longrightarrow>
        hitsStroke cb p st =
          (min (px sp) (px ep) - 12 \<le> px p \<and> px p \<le> max (px sp) (px ep) + 12
           \<and> min (py sp) (py ep) - 12 \<le> py p \<and> py p \<le> max (py sp) (py ep) + 12)"
    by (auto simp: hitsStroke_def Let_def)
  show "stype st = Pen \<and> (startPoint st = None \<or> endPoint st = None) \<longrightarrow>
        hitsStroke cb p st =
          (\<exists>q\<in>set (points st).
             sqrt ((px q - px p)\<^sup>2 + (py q - py p)\<^sup>2) \<le> max 14 (strokeWidth st + 10))"
    by (auto simp: hitsStroke_def list_ex_iff split: option.splits)
qed

theorem getStrokeAtPoint_topmost_witness:
  "hitsStroke (calculateBounds None) \<lparr>px = 20, py = 20\<rparr> sampleRect
   \<and> hitsStroke (calculateBounds None) \<lparr>px = 20, py = 20\<rparr> samplePen
   \<and> getStrokeAtPoint \<lparr>px = 20, py = 20\<rparr> [sampleRect, samplePen] (calculateBounds None)
       = Some samplePen
   \<and> getStrokeAtPoint \<lparr>px = 20, py = 20\<rparr> [samplePen, sampleRect] (calculateBounds None)
       = Some sampleRect
   \<and> getStrokeAtPoint \<lparr>px = 200, py = 200\<rparr> [sampleRect, samplePen] (calculateBounds None) = None"
proof -
  have h: "hitsStroke (calculateBounds None) \<lparr>px = 20, py = 20\<rparr> sampleRect"
    "hitsStroke (calculateBounds None) \<lparr>px = 20, py = 20\<rparr> samplePen"
    by (simp_all add: hitsStroke_def sample_defs)
  have n: "\<forall>i<length [sampleRect, samplePen].
      \<not> hitsStroke (calculateBounds None) \<lparr>px = 200, py = 200\<rparr> ([sampleRect, samplePen] ! i)"
    by (simp add: hitsStroke_def sample_defs less_Suc_eq not_le real_less_rsqrt)
  show ?thesis
    using getStrokeAtPoint_topmost [of "\<lparr>px = 20, py = 20\<rparr>" "[]" "calculateBounds None" samplePen
        sampleRect samplePen samplePen "\<lparr>px = 0, py = 0\<rparr>" "\<lparr>px = 0, py = 0\<rparr>"]
      getStrokeAtPoint_topmost [of "\<lparr>px = 20, py = 20\<rparr>" "[]" "calculateBounds None" samplePen
        samplePen sampleRect samplePen "\<lparr>px = 0, py = 0\<rparr>" "\<lparr>px = 0, py = 0\<rparr>"]
      getStrokeAtPoint_topmost [of "\<lparr>px = 200, py = 200\<rparr>" "[sampleRect, samplePen]"
        "calculateBounds None" samplePen samplePen samplePen samplePen
        "\<lparr>px = 0, py = 0\<rparr>" "\<lparr>px = 0, py = 0\<rparr>"]
      h n
    by simp
qed

section \<open>Erasing\<close>






section \<open>Box selection\<close>

text \<open>
  C8, as the code has it. \<open>getStrokesInSelectionBox\<close> selects a pen stroke when a sample
  point lies in the normalized marquee, a text stroke when its anchor does, and a shape
  when its min/max box overlaps the marquee. The store's \<open>finishSelection\<close>, which runs
  when a marquee is finished, applies the same tests to pen strokes and shapes, but selects
  a text stroke when its calculated bounds overlap the marquee. With strokes at
  (0,0)-(10,10) and (100,100)-(110,110), the marquee from (-5,-5) to (20,20) selects only
  the first, in both.
\<close>

theorem box_selection_membership:
  "getStrokesInSelectionBox ss box = map sid (filter (strokeInSelectionBox box) ss)
   \<and> (selectionBox s = Some box \<longrightarrow>
        selectedStrokes (finishSelection ctx s)
          = map sid (filter (strokeInMarquee ctx box) (strokes s)))
   \<and> (stype st = Text \<and> points st = anchor # rest \<longrightarrow>
        strokeInSelectionBox box st = pointInBox anchor (normalizedBox box)
      \<and> strokeInMarquee ctx box st = boxesOverlap (calculateBounds ctx st) (normalizedBox box))
   \<and> (stype st \<in> {Rectangle, Ellipse, Line} \<and> startPoint st = Some sp \<and> endPoint st = Some ep \<longrightarrow>
        strokeInSelectionBox box st = boxesOverlap (minMaxBox sp ep) (normalizedBox box)
      \<and> strokeInMarquee ctx box st = boxesOverlap (minMaxBox sp ep) (normalizedBox box))
   \<and> (stype st = Pen \<and> (startPoint st = None \<or> endPoint st = None) \<longrightarrow>
        strokeInSelectionBox box st = (\<exists>q\<in>set (points st). pointInBox q (normalizedBox box))
      \<and> strokeInMarquee ctx box st = (\<exists>q\<in>set (points st). pointInBox q (normalizedBox box)))
   \<and> isPointInSelectionBox q box = pointInBox q (normalizedBox box)
   \<and> getStrokesInSelectionBox [sampleNear, sampleFar] sampleMarquee = [''n'']
   \<and> selectedStrokes
        (finishSelection ctx (s\<lparr>strokes := [sampleNear, sampleFar], selectionBox := Some sampleMarquee\<rparr>))
       = [''n'']"
proof (intro conjI)
  show "getStrokesInSelectionBox ss box = map sid (filter (strokeInSelectionBox box) ss)"
    by (simp add: getStrokesInSelectionBox_def)
  show "selectionBox s = Some box \<longrightarrow>
        selectedStrokes (finishSelection ctx s)
          = map sid (filter (strokeInMarquee ctx box) (strokes s))"
    by (simp add: finishSelection_def selectMultiple_def Let_def)
  show "stype st = Text \<and> points st = anchor # rest \<longrightarrow>
        strokeInSelectionBox box st = pointInBox anchor (normalizedBox box)
      \<and> strokeInMarquee ctx box st = boxesOverlap (calculateBounds ctx st) (normalizedBox box)"
    by (auto simp: strokeInSelectionBox_def strokeInMarquee_def pointInBox_def normalizedBox_def
        boxesOverlap_def Let_def)
  show "stype st \<in> {Rectangle, Ellipse, Line} \<and> startPoint st = Some sp \<and> endPoint st = Some ep \<longrightarrow>
        strokeInSelectionBox box st = boxesOverlap (minMaxBox sp ep) (normalizedBox box)
      \<and> strokeInMarquee ctx box st = boxesOverlap (minMaxBox sp ep) (normalizedBox box)"
    by (auto simp: strokeInSelectionBox_def strokeInMarquee_def minMaxBox_def normalizedBox_def
        boxesOverlap_def Let_def)
  show "stype st = Pen \<and> (startPoint st = None \<or> endPoint st = None) \<longrightarrow>
        strokeInSelectionBox box st = (\<exists>q\<in>set (points st). pointInBox q (normalizedBox box))
      \<and> strokeInMarquee ctx box st = (\<exists>q\<in>set (points st). pointInBox q (normalizedBox box))"
    by (auto simp: strokeInSelectionBox_def strokeInMarquee_def pointInBox_def normalizedBox_def
        list_ex_iff Let_def split: option.splits)
  show "isPointInSelectionBox q box = pointInBox q (normalizedBox box)"
    by (auto simp: isPointInSelectionBox_def pointInBox_def normalizedBox_def Let_def)
  show "getStrokesInSelectionBox [sampleNear, sampleFar] sampleMarquee = [''n'']"
    by (simp add: getStrokesInSelectionBox_def strokeInSelectionBox_def sample_defs)
  show "selectedStrokes
        (finishSelection ctx (s\<lparr>strokes := [sampleNear, sampleFar], selectionBox := Some sampleMarquee\<rparr>))
       = [''n'']"
    by (simp add: finishSelection_def selectMultiple_def strokeInMarquee_def sample_defs)
qed

theorem box_selection_membership_witness:
  "selectionBox (run sampleMeasurer
        [AddStroke sampleNear, AddStroke sampleText, StartSelection \<lparr>px = -5, py = -5\<rparr>,
         UpdateSelection \<lparr>px = 20, py = 20\<rparr>] initialState) = Some sampleMarquee
   \<and> stype sampleText = Text \<and> points sampleText = [\<lparr>px = -10, py = 0\<rparr>]
   \<and> stype sampleNear \<in> {Rectangle, Ellipse, Line}
   \<and> startPoint sampleNear = Some \<lparr>px = 0, py = 0\<rparr> \<and> endPoint sampleNear = Some \<lparr>px = 10, py = 10\<rparr>
   \<and> stype samplePen = Pen \<and> startPoint samplePen = None
   \<and> strokeInSelectionBox sampleMarquee sampleNear
   \<and> strokeInMarquee sampleMeasurer sampleMarquee sampleNear
   \<and> \<not> strokeInSelectionBox sampleMarquee sampleText
   \<and> strokeInMarquee sampleMeasurer sampleMarquee sampleText
   \<and> strokeInSelectionBox sampleMarquee samplePen
   \<and> strokeInMarquee sampleMeasurer sampleMarquee samplePen
   \<and> selectedStrokes (finishSelection sampleMeasurer (run sampleMeasurer
        [AddStroke sampleNear, AddStroke sampleText, StartSelection \<lparr>px = -5, py = -5\<rparr>,
         UpdateSelection \<lparr>px = 20, py = 20\<rparr>] initialState)) = [''n'', ''t'']"
proof -
  let ?s = "run sampleMeasurer
        [AddStroke sampleNear, AddStroke sampleText, StartSelection \<lparr>px = -5, py = -5\<rparr>,
         UpdateSelection \<lparr>px = 20, py = 20\<rparr>] initialState"
  have b: "selectionBox ?s = Some sampleMarquee"
    by (simp add: eval_defs sampleMarquee_def)
  have st: "strokes ?s = [sampleNear, sampleText]"
    by (simp add: eval_defs)
  have ty: "stype sampleText = Text \<and> points sampleText = [\<lparr>px = -10, py = 0\<rparr>]"
    "stype sampleNear \<in> {Rectangle, Ellipse, Line} \<and> startPoint sampleNear = Some \<lparr>px = 0, py = 0\<rparr>
       \<and> endPoint sampleNear = Some \<lparr>px = 10, py = 10\<rparr>"
    "stype samplePen = Pen \<and> (startPoint samplePen = None \<or> endPoint samplePen = None)"
    by (simp_all add: sample_defs)
  have cb: "calculateBounds sampleMeasurer sampleText
      = \<lparr>minX = -12, minY = -2, maxX = 12, maxY = 21.2\<rparr>"
    by (simp add: calculateBounds_def sample_defs rotationOf_def fontSizeOf_def textOf_def)
  have nb: "normalizedBox sampleMarquee = \<lparr>minX = -5, minY = -5, maxX = 20, maxY = 20\<rparr>"
    by (simp add: normalizedBox_def sampleMarquee_def)
  note c2 = conjunct2
  note t2 = box_selection_membership [where box = sampleMarquee and s = "?s" and ctx = sampleMeasurer,
      THEN c2, THEN conjunct1, THEN mp, OF b]
  note t3 = box_selection_membership [where box = sampleMarquee and ctx = sampleMeasurer
      and st = sampleText and anchor = "\<lparr>px = -10, py = 0\<rparr>" and rest = "[]",
      THEN c2, THEN c2, THEN conjunct1, THEN mp, OF ty(1)]
  note t4 = box_selection_membership [where box = sampleMarquee and ctx = sampleMeasurer
      and st = sampleNear and sp = "\<lparr>px = 0, py = 0\<rparr>" and ep = "\<lparr>px = 10, py = 10\<rparr>",
      THEN c2, THEN c2, THEN c2, THEN conjunct1, THEN mp, OF ty(2)]
  note t5 = box_selection_membership [where box = sampleMarquee and ctx = sampleMeasurer
      and st = samplePen,
      THEN c2, THEN c2, THEN c2, THEN c2, THEN conjunct1, THEN mp, OF ty(3)]
  have k: "strokeInSelectionBox sampleMarquee sampleNear"
    "strokeInMarquee sampleMeasurer sampleMarquee sampleNear"
    using t4 nb by (simp_all add: boxesOverlap_def minMaxBox_def)
  have x: "\<not> strokeInSelectionBox sampleMarquee sampleText"
    "strokeInMarquee sampleMeasurer sampleMarquee sampleText"
    using t3 nb cb by (simp_all add: boxesOverlap_def pointInBox_def)
  have p: "strokeInSelectionBox sampleMarquee samplePen"
    "strokeInMarquee sampleMeasurer sampleMarquee samplePen"
    using t5 nb by (simp_all add: pointInBox_def sample_defs)
  have "selectedStrokes (finishSelection sampleMeasurer ?s) = [''n'', ''t'']"
    unfolding t2 st using k x by (simp add: sample_defs)
  moreover have "startPoint samplePen = None"
    by (simp add: sample_defs)
  ultimately show ?thesis
    using b ty k x p by simp
qed

theorem box_selection_counterexample:
  "selectedStrokes (run sampleMeasurer
        [AddStroke sampleText, StartSelection \<lparr>px = -5, py = -5\<rparr>,
         UpdateSelection \<lparr>px = 20, py = 20\<rparr>, FinishSelection] initialState) = [''t'']
   \<and> stype sampleText = Text
   \<and> points sampleText = [\<lparr>px = -10, py = 0\<rparr>]
   \<and> \<not> isPointInSelectionBox \<lparr>px = -10, py = 0\<rparr> \<lparr>startX = -5, startY = -5, endX = 20, endY = 20\<rparr>
   \<and> getStrokesInSelectionBox [sampleText] \<lparr>startX = -5, startY = -5, endX = 20, endY = 20\<rparr> = []"
  by (simp add: eval_defs sample_defs strokeInMarquee_def calculateBounds_def rotationOf_def
      fontSizeOf_def textOf_def isPointInSelectionBox_def getStrokesInSelectionBox_def
      strokeInSelectionBox_def)

section \<open>Selection flags and the selection array\<close>





section \<open>Bounds of a rotated stroke\<close>

lemma minOf_Min: "xs \<noteq> [] \<Longrightarrow> minOf xs = Min (set xs)"
proof (cases xs)
  case Nil
  then show "xs \<noteq> [] \<Longrightarrow> minOf xs = Min (set xs)" by simp
next
  case (Cons v vs)
  have "foldl min v vs = fold min vs v"
    by (simp add: foldl_conv_fold min.commute)
  then show ?thesis using Cons Min.set_eq_fold [of v vs] by simp
qed

lemma maxOf_Max: "xs \<noteq> [] \<Longrightarrow> maxOf xs = Max (set xs)"
proof (cases xs)
  case Nil
  then show "xs \<noteq> [] \<Longrightarrow> maxOf xs = Max (set xs)" by simp
next
  case (Cons v vs)
  have "foldl max v vs = fold max vs v"
    by (simp add: foldl_conv_fold max.commute)
  then show ?thesis using Cons Max.set_eq_fold [of v vs] by simp
qed

lemma minOf_le: "v \<in> set xs \<Longrightarrow> minOf xs \<le> v"
  by (cases "xs = []") (simp_all add: minOf_Min)

lemma maxOf_ge: "v \<in> set xs \<Longrightarrow> v \<le> maxOf xs"
  by (cases "xs = []") (simp_all add: maxOf_Max)

lemma minOf_greatest: "xs \<noteq> [] \<Longrightarrow> (\<And>v. v \<in> set xs \<Longrightarrow> c \<le> v) \<Longrightarrow> c \<le> minOf xs"
  by (simp add: minOf_Min)

lemma maxOf_least: "xs \<noteq> [] \<Longrightarrow> (\<And>v. v \<in> set xs \<Longrightarrow> v \<le> c) \<Longrightarrow> maxOf xs \<le> c"
  by (simp add: maxOf_Max)

text \<open>A linear form on a box takes its extremes at corners.\<close>

lemma corner_below:
  fixes a b :: real
  assumes "x0 \<le> x" "x \<le> x1" "y0 \<le> y" "y \<le> y1"
  shows "\<exists>ex\<in>{x0, x1}. \<exists>ey\<in>{y0, y1}. ex * a + ey * b \<le> x * a + y * b"
proof -
  have xa: "\<exists>ex\<in>{x0, x1}. ex * a \<le> x * a"
  proof (cases "0 \<le> a")
    case True
    then have "x0 * a \<le> x * a" using assms(1) by (rule mult_right_mono [rotated])
    then show ?thesis by blast
  next
    case False
    then have "x1 * a \<le> x * a" using assms(2) by (intro mult_right_mono_neg) simp_all
    then show ?thesis by blast
  qed
  have yb: "\<exists>ey\<in>{y0, y1}. ey * b \<le> y * b"
  proof (cases "0 \<le> b")
    case True
    then have "y0 * b \<le> y * b" using assms(3) by (rule mult_right_mono [rotated])
    then show ?thesis by blast
  next
    case False
    then have "y1 * b \<le> y * b" using assms(4) by (intro mult_right_mono_neg) simp_all
    then show ?thesis by blast
  qed
  from xa yb show ?thesis by (meson add_mono)
qed

lemma corner_above:
  fixes a b :: real
  assumes "x0 \<le> x" "x \<le> x1" "y0 \<le> y" "y \<le> y1"
  shows "\<exists>ex\<in>{x0, x1}. \<exists>ey\<in>{y0, y1}. x * a + y * b \<le> ex * a + ey * b"
proof -
  have xa: "\<exists>ex\<in>{x0, x1}. x * a \<le> ex * a"
  proof (cases "0 \<le> a")
    case True
    then have "x * a \<le> x1 * a" using assms(2) by (rule mult_right_mono [rotated])
    then show ?thesis by blast
  next
    case False
    then have "x * a \<le> x0 * a" using assms(1) by (intro mult_right_mono_neg) simp_all
    then show ?thesis by blast
  qed
  have yb: "\<exists>ey\<in>{y0, y1}. y * b \<le> ey * b"
  proof (cases "0 \<le> b")
    case True
    then have "y * b \<le> y1 * b" using assms(4) by (rule mult_right_mono [rotated])
    then show ?thesis by blast
  next
    case False
    then have "y * b \<le> y0 * b" using assms(3) by (intro mult_right_mono_neg) simp_all
    then show ?thesis by blast
  qed
  from xa yb show ?thesis by (meson add_mono)
qed


lemma rotated_in_corner_box:
  assumes "x0 \<le> x" "x \<le> x1" "y0 \<le> y" "y \<le> y1"
  shows "minX (boundsOfPoints (rotatedCorners x0 y0 x1 y1 cx cy a)) \<le> px (rotatePoint x y cx cy a)"
    and "px (rotatePoint x y cx cy a) \<le> maxX (boundsOfPoints (rotatedCorners x0 y0 x1 y1 cx cy a))"
    and "minY (boundsOfPoints (rotatedCorners x0 y0 x1 y1 cx cy a)) \<le> py (rotatePoint x y cx cy a)"
    and "py (rotatePoint x y cx cy a) \<le> maxY (boundsOfPoints (rotatedCorners x0 y0 x1 y1 cx cy a))"
proof -
  let ?cs = "rotatedCorners x0 y0 x1 y1 cx cy a"
  have corner: "\<And>ex ey. ex \<in> {x0, x1} \<Longrightarrow> ey \<in> {y0, y1} \<Longrightarrow> rotatePoint ex ey cx cy a \<in> set ?cs"
    by (auto simp: rotatedCorners_def)
  obtain ex ey where e1: "ex \<in> {x0, x1}" "ey \<in> {y0, y1}"
    "ex * cos a + ey * (- sin a) \<le> x * cos a + y * (- sin a)"
    using corner_below [OF assms, of "cos a" "- sin a"] by blast
  have "px (rotatePoint ex ey cx cy a) \<le> px (rotatePoint x y cx cy a)"
    using e1(3) by (simp add: rotatePoint_def Let_def algebra_simps)
  moreover have "minOf (map px ?cs) \<le> px (rotatePoint ex ey cx cy a)"
    using corner [OF e1(1,2)] by (intro minOf_le) simp
  ultimately show "minX (boundsOfPoints ?cs) \<le> px (rotatePoint x y cx cy a)"
    by (simp add: boundsOfPoints_def)
  obtain fx fy where e2: "fx \<in> {x0, x1}" "fy \<in> {y0, y1}"
    "x * cos a + y * (- sin a) \<le> fx * cos a + fy * (- sin a)"
    using corner_above [OF assms, of "cos a" "- sin a"] by blast
  have "px (rotatePoint x y cx cy a) \<le> px (rotatePoint fx fy cx cy a)"
    using e2(3) by (simp add: rotatePoint_def Let_def algebra_simps)
  moreover have "px (rotatePoint fx fy cx cy a) \<le> maxOf (map px ?cs)"
    using corner [OF e2(1,2)] by (intro maxOf_ge) simp
  ultimately show "px (rotatePoint x y cx cy a) \<le> maxX (boundsOfPoints ?cs)"
    by (simp add: boundsOfPoints_def)
  obtain gx gy where e3: "gx \<in> {x0, x1}" "gy \<in> {y0, y1}"
    "gx * sin a + gy * cos a \<le> x * sin a + y * cos a"
    using corner_below [OF assms, of "sin a" "cos a"] by blast
  have "py (rotatePoint gx gy cx cy a) \<le> py (rotatePoint x y cx cy a)"
    using e3(3) by (simp add: rotatePoint_def Let_def algebra_simps)
  moreover have "minOf (map py ?cs) \<le> py (rotatePoint gx gy cx cy a)"
    using corner [OF e3(1,2)] by (intro minOf_le) simp
  ultimately show "minY (boundsOfPoints ?cs) \<le> py (rotatePoint x y cx cy a)"
    by (simp add: boundsOfPoints_def)
  obtain hx hy where e4: "hx \<in> {x0, x1}" "hy \<in> {y0, y1}"
    "x * sin a + y * cos a \<le> hx * sin a + hy * cos a"
    using corner_above [OF assms, of "sin a" "cos a"] by blast
  have "py (rotatePoint x y cx cy a) \<le> py (rotatePoint hx hy cx cy a)"
    using e4(3) by (simp add: rotatePoint_def Let_def algebra_simps)
  moreover have "py (rotatePoint hx hy cx cy a) \<le> maxOf (map py ?cs)"
    using corner [OF e4(1,2)] by (intro maxOf_ge) simp
  ultimately show "py (rotatePoint x y cx cy a) \<le> maxY (boundsOfPoints ?cs)"
    by (simp add: boundsOfPoints_def)
qed

lemma path_within_corners:
  assumes "ps \<noteq> []"
  shows "boxWithin (boundsOfPoints (rotatedPath ps a)) (boxOfRotatedCorners (boundsOfPoints ps) a)"
proof -
  let ?u = "boundsOfPoints ps"
  let ?cx = "(minX ?u + maxX ?u) / 2"
  let ?cy = "(minY ?u + maxY ?u) / 2"
  let ?C = "boundsOfPoints (rotatedCorners (minX ?u) (minY ?u) (maxX ?u) (maxY ?u) ?cx ?cy a)"
  let ?r = "\<lambda>p. rotatePoint (px p) (py p) ?cx ?cy a"
  have inbox: "minX ?u \<le> px p \<and> px p \<le> maxX ?u \<and> minY ?u \<le> py p \<and> py p \<le> maxY ?u"
    if "p \<in> set ps" for p
    using that by (simp add: boundsOfPoints_def minOf_le maxOf_ge)
  have r: "minX ?C \<le> px (?r p) \<and> px (?r p) \<le> maxX ?C \<and> minY ?C \<le> py (?r p) \<and> py (?r p) \<le> maxY ?C"
    if "p \<in> set ps" for p
    using inbox [OF that] rotated_in_corner_box [of "minX ?u" "px p" "maxX ?u" "minY ?u" "py p" "maxY ?u" ?cx ?cy a]
    by blast
  have ne: "map px (map ?r ps) \<noteq> []" "map py (map ?r ps) \<noteq> []"
    using assms by simp_all
  have "minX ?C \<le> minOf (map px (map ?r ps))"
    using r by (intro minOf_greatest [OF ne(1)]) auto
  moreover have "maxOf (map px (map ?r ps)) \<le> maxX ?C"
    using r by (intro maxOf_least [OF ne(1)]) auto
  moreover have "minY ?C \<le> minOf (map py (map ?r ps))"
    using r by (intro minOf_greatest [OF ne(2)]) auto
  moreover have "maxOf (map py (map ?r ps)) \<le> maxY ?C"
    using r by (intro maxOf_least [OF ne(2)]) auto
  ultimately show ?thesis
    by (simp add: boxWithin_def boxOfRotatedCorners_def rotatedPath_def Let_def
        boundsOfPoints_def [of "map ?r ps"])
qed

text \<open>
  C4, as the code has it. On a stroke with both end points (and not a text with an anchor)
  \<open>calculateBounds\<close> returns the min/max box of the end points when the rotation is 0 or
  absent, and otherwise the axis-aligned box around the four corners of that box rotated
  about its centre. On a text stroke measured by a rendering context it returns the anchor
  box padded by 2 when unrotated, and otherwise the box around the rotated corners of the
  unpadded anchor box, padded by 2 afterwards. On a pen stroke it returns the box around
  the sample points, and when rotated the box around the sample points themselves, each
  rotated about the centre of the unrotated box; that box lies within the box around the
  rotated corners.
\<close>

theorem calculateBounds_rotation:
  "(\<not> (stype s = Text \<and> points s \<noteq> []) \<and> startPoint s = Some sp \<and> endPoint s = Some ep \<longrightarrow>
      calculateBounds ctx s =
        (if rotationOf s = 0 then minMaxBox sp ep
         else boxOfRotatedCorners (minMaxBox sp ep) (rotationOf s)))
   \<and> (stype s = Text \<and> points s \<noteq> [] \<longrightarrow>
      calculateBounds (Some m) s =
        padBox 2 (if rotationOf s = 0 then measuredTextBox m s
                  else boxOfRotatedCorners (measuredTextBox m s) (rotationOf s)))
   \<and> (stype s \<noteq> Text \<and> (startPoint s = None \<or> endPoint s = None) \<and> points s \<noteq> [] \<longrightarrow>
      calculateBounds ctx s =
        (if rotationOf s = 0 then boundsOfPoints (points s)
         else boundsOfPoints (rotatedPath (points s) (rotationOf s)))
      \<and> boxWithin (boundsOfPoints (rotatedPath (points s) (rotationOf s)))
           (boxOfRotatedCorners (boundsOfPoints (points s)) (rotationOf s)))"
proof (intro conjI impI)
  assume "\<not> (stype s = Text \<and> points s \<noteq> []) \<and> startPoint s = Some sp \<and> endPoint s = Some ep"
  then show "calculateBounds ctx s =
        (if rotationOf s = 0 then minMaxBox sp ep
         else boxOfRotatedCorners (minMaxBox sp ep) (rotationOf s))"
    by (auto simp: calculateBounds_def minMaxBox_def boxOfRotatedCorners_def Let_def)
next
  assume "stype s = Text \<and> points s \<noteq> []"
  then show "calculateBounds (Some m) s =
        padBox 2 (if rotationOf s = 0 then measuredTextBox m s
                  else boxOfRotatedCorners (measuredTextBox m s) (rotationOf s))"
    by (simp add: calculateBounds_def measuredTextBox_def boxOfRotatedCorners_def padBox_def
        Let_def add_divide_distrib)
next
  assume h: "stype s \<noteq> Text \<and> (startPoint s = None \<or> endPoint s = None) \<and> points s \<noteq> []"
  then show "calculateBounds ctx s =
        (if rotationOf s = 0 then boundsOfPoints (points s)
         else boundsOfPoints (rotatedPath (points s) (rotationOf s)))"
    by (auto simp: calculateBounds_def rotatedPath_def Let_def split: option.splits)
  show "boxWithin (boundsOfPoints (rotatedPath (points s) (rotationOf s)))
           (boxOfRotatedCorners (boundsOfPoints (points s)) (rotationOf s))"
    using h by (intro path_within_corners) simp
qed

theorem calculateBounds_rotation_counterexample:
  "rotationOf sampleTurned = pi / 4
   \<and> sampleTurned = sampleDiagonal\<lparr>rotation := Some (pi / 4)\<rparr>
   \<and> minX (calculateBounds None sampleTurned) = 1
   \<and> minX (boxOfRotatedCorners (calculateBounds None sampleDiagonal) (pi / 4)) = 1 - sqrt 2
   \<and> calculateBounds None sampleTurned
       \<noteq> boxOfRotatedCorners (calculateBounds None sampleDiagonal) (pi / 4)"
proof -
  have a: "minX (calculateBounds None sampleTurned) = 1"
    by (simp add: sampleTurned_def sampleDiagonal_def applyRotation_def updateStrokePoints_def
        createPenStroke_def calculateBounds_def rotationOf_def boundsOfPoints_def
        rotatePoint_def cos_45 sin_45 Let_def)
  have b: "minX (boxOfRotatedCorners (calculateBounds None sampleDiagonal) (pi / 4)) = 1 - sqrt 2"
    by (simp add: sampleDiagonal_def updateStrokePoints_def
        createPenStroke_def calculateBounds_def rotationOf_def boundsOfPoints_def
        boxOfRotatedCorners_def rotatedCorners_def rotatePoint_def cos_45 sin_45 Let_def)
  have c: "rotationOf sampleTurned = pi / 4" "sampleTurned = sampleDiagonal\<lparr>rotation := Some (pi / 4)\<rparr>"
    by (simp_all add: sampleTurned_def sampleDiagonal_def applyRotation_def updateStrokePoints_def
        createPenStroke_def rotationOf_def)
  have "minX (calculateBounds None sampleTurned)
      \<noteq> minX (boxOfRotatedCorners (calculateBounds None sampleDiagonal) (pi / 4))"
    unfolding a b by simp
  then have "calculateBounds None sampleTurned
       \<noteq> boxOfRotatedCorners (calculateBounds None sampleDiagonal) (pi / 4)"
    by metis
  then show ?thesis using a b c by simp
qed

theorem calculateBounds_rotation_witness:
  "\<not> (stype (applyRotation sampleRect (pi / 2)) = Text \<and> points (applyRotation sampleRect (pi / 2)) \<noteq> [])
   \<and> startPoint (applyRotation sampleRect (pi / 2)) = Some \<lparr>px = 0, py = 0\<rparr>
   \<and> endPoint (applyRotation sampleRect (pi / 2)) = Some \<lparr>px = 100, py = 50\<rparr>
   \<and> rotationOf (applyRotation sampleRect (pi / 2)) \<noteq> 0
   \<and> calculateBounds None (applyRotation sampleRect (pi / 2))
       = boxOfRotatedCorners \<lparr>minX = 0, minY = 0, maxX = 100, maxY = 50\<rparr> (pi / 2)
   \<and> calculateBounds None (applyRotation sampleRect (pi / 2))
       = \<lparr>minX = 25, minY = -25, maxX = 75, maxY = 75\<rparr>
   \<and> stype sampleText = Text \<and> points sampleText \<noteq> []
   \<and> calculateBounds sampleMeasurer sampleText = \<lparr>minX = -12, minY = -2, maxX = 12, maxY = 21.2\<rparr>
   \<and> stype sampleTurned \<noteq> Text \<and> startPoint sampleTurned = None \<and> points sampleTurned \<noteq> []
   \<and> boxWithin (calculateBounds None sampleTurned)
        (boxOfRotatedCorners (boundsOfPoints (points sampleTurned)) (pi / 4))"
proof -
  let ?r = "applyRotation sampleRect (pi / 2)"
  have h1: "\<not> (stype ?r = Text \<and> points ?r \<noteq> []) \<and> startPoint ?r = Some \<lparr>px = 0, py = 0\<rparr>
      \<and> endPoint ?r = Some \<lparr>px = 100, py = 50\<rparr>"
    by (simp add: applyRotation_def sample_defs)
  have r1: "rotationOf ?r = pi / 2"
    by (simp add: applyRotation_def rotationOf_def sample_defs)
  have h2: "stype sampleText = Text \<and> points sampleText \<noteq> []"
    by (simp add: sample_defs)
  have h3: "stype sampleTurned \<noteq> Text \<and> (startPoint sampleTurned = None \<or> endPoint sampleTurned = None)
      \<and> points sampleTurned \<noteq> []"
    by (simp add: sampleTurned_def sampleDiagonal_def applyRotation_def updateStrokePoints_def
        createPenStroke_def)
  have r3: "rotationOf sampleTurned = pi / 4"
    by (simp add: sampleTurned_def sampleDiagonal_def applyRotation_def updateStrokePoints_def
        createPenStroke_def rotationOf_def)
  note c2 = conjunct2
  note t1 = calculateBounds_rotation [where s = "?r" and ctx = None, THEN conjunct1, THEN mp, OF h1]
  note t2 = calculateBounds_rotation [where s = sampleText and m = "\<lambda>fs line. fs * 0.5 * real (length line)",
      THEN c2, THEN conjunct1, THEN mp, OF h2]
  note t3 = calculateBounds_rotation [where s = sampleTurned and ctx = None,
      THEN c2, THEN c2, THEN mp, OF h3]
  have a: "calculateBounds None ?r
      = boxOfRotatedCorners \<lparr>minX = 0, minY = 0, maxX = 100, maxY = 50\<rparr> (pi / 2)"
    using t1 r1 by (simp add: minMaxBox_def)
  have b: "boxOfRotatedCorners \<lparr>minX = 0, minY = 0, maxX = 100, maxY = 50\<rparr> (pi / 2)
      = \<lparr>minX = 25, minY = -25, maxX = 75, maxY = 75\<rparr>"
    by (simp add: boxOfRotatedCorners_def rotatedCorners_def rotatePoint_def boundsOfPoints_def)
  have c: "calculateBounds sampleMeasurer sampleText = \<lparr>minX = -12, minY = -2, maxX = 12, maxY = 21.2\<rparr>"
    using t2 by (simp add: sampleMeasurer_def measuredTextBox_def padBox_def rotationOf_def
        fontSizeOf_def textOf_def sampleText_def createTextStroke_def)
  have d: "boxWithin (calculateBounds None sampleTurned)
        (boxOfRotatedCorners (boundsOfPoints (points sampleTurned)) (pi / 4))"
    using t3 r3 by simp
  have e: "rotationOf ?r \<noteq> 0"
    unfolding r1 by simp
  have f: "startPoint sampleTurned = None"
    by (simp add: sampleTurned_def sampleDiagonal_def applyRotation_def
        updateStrokePoints_def createPenStroke_def)
  show ?thesis
    using h1 h2 h3 a b c d e f by simp
qed

section \<open>Coordinate transformer: round trip\<close>

text \<open>
  C10. \<open>screenToCanvas\<close> and \<open>canvasToScreen\<close> are mutually inverse for every point,
  every canvas rectangle and every view state whose zoom is not 0.
\<close>

theorem transform_roundtrip:
  assumes "czoom state \<noteq> 0"
  shows "screenToCanvas (px (canvasToScreen a b rect state)) (py (canvasToScreen a b rect state))
           rect state = \<lparr>px = a, py = b\<rparr>
       \<and> canvasToScreen (px (screenToCanvas a b rect state)) (py (screenToCanvas a b rect state))
           rect state = \<lparr>px = a, py = b\<rparr>"
  using assms by (simp add: screenToCanvas_def canvasToScreen_def)

theorem transform_roundtrip_witness:
  "czoom \<lparr>czoom = 2, cpanX = 30, cpanY = -10\<rparr> \<noteq> 0
   \<and> screenToCanvas
        (px (canvasToScreen 7 9 \<lparr>rleft = 5, rtop = 3\<rparr> \<lparr>czoom = 2, cpanX = 30, cpanY = -10\<rparr>))
        (py (canvasToScreen 7 9 \<lparr>rleft = 5, rtop = 3\<rparr> \<lparr>czoom = 2, cpanX = 30, cpanY = -10\<rparr>))
        \<lparr>rleft = 5, rtop = 3\<rparr> \<lparr>czoom = 2, cpanX = 30, cpanY = -10\<rparr> = \<lparr>px = 7, py = 9\<rparr>
   \<and> canvasToScreen 7 9 \<lparr>rleft = 5, rtop = 3\<rparr> \<lparr>czoom = 2, cpanX = 30, cpanY = -10\<rparr>
        = \<lparr>px = 49, py = 11\<rparr>"
  using transform_roundtrip [of "\<lparr>czoom = 2, cpanX = 30, cpanY = -10\<rparr>" 7 9 "\<lparr>rleft = 5, rtop = 3\<rparr>"]
  by (simp add: canvasToScreen_def)

end
